theory Spec2Isabelle
  imports Main
begin

section \<open>Values shared by the client and the resources\<close>

text \<open>
  A Go \<^verbatim>\<open>map[string]interface{}\<close> that is sent as a request body is an object of JSON
  values. The object keeps its entries as an association list; \<open>assign\<close> is the Go
  statement \<^verbatim>\<open>m[k] = v\<close> (a key that is present is overwritten), \<open>map_of\<close> is the lookup.
\<close>

datatype json =
    JNull
  | JString string
  | JBool bool
  | JArray "json list"
  | JObject "(string \<times> json) list"

fun assign :: "'k \<Rightarrow> 'v \<Rightarrow> ('k \<times> 'v) list \<Rightarrow> ('k \<times> 'v) list" where
  "assign k v [] = [(k, v)]"
| "assign k v ((k', v') # m) = (if k' = k then (k, v) # m else (k', v') # assign k v m)"

text \<open>
  \<^verbatim>\<open>types.String\<close> and \<^verbatim>\<open>types.Bool\<close> of the plugin framework: null, unknown, or a value.
  \<^verbatim>\<open>ValueString\<close> and \<^verbatim>\<open>ValueBool\<close> give the zero value for null and unknown.
\<close>

datatype tf_string = StringNull | StringUnknown | StringValue string

datatype tf_bool = BoolNull | BoolUnknown | BoolValue bool

fun IsNull :: "tf_string \<Rightarrow> bool" where
  "IsNull StringNull = True"
| "IsNull _ = False"

fun IsUnknown :: "tf_string \<Rightarrow> bool" where
  "IsUnknown StringUnknown = True"
| "IsUnknown _ = False"

fun ValueString :: "tf_string \<Rightarrow> string" where
  "ValueString (StringValue s) = s"
| "ValueString _ = []"

fun BoolIsNull :: "tf_bool \<Rightarrow> bool" where
  "BoolIsNull BoolNull = True"
| "BoolIsNull _ = False"

fun BoolIsUnknown :: "tf_bool \<Rightarrow> bool" where
  "BoolIsUnknown BoolUnknown = True"
| "BoolIsUnknown _ = False"

fun ValueBool :: "tf_bool \<Rightarrow> bool" where
  "ValueBool (BoolValue b) = b"
| "ValueBool _ = False"

subsection \<open>internal/provider/helpers.go\<close>

definition setStringField :: "(string \<times> json) list \<Rightarrow> string \<Rightarrow> tf_string \<Rightarrow> (string \<times> json) list" where
  "setStringField input key v =
     (if \<not> IsNull v \<and> \<not> IsUnknown v then assign key (JString (ValueString v)) input
      else input)"

definition setNullableStringField :: "(string \<times> json) list \<Rightarrow> string \<Rightarrow> tf_string \<Rightarrow> (string \<times> json) list" where
  "setNullableStringField input key v =
     (if IsUnknown v then input
      else if IsNull v then assign key JNull input
      else assign key (JString (ValueString v)) input)"

definition setBoolField :: "(string \<times> json) list \<Rightarrow> string \<Rightarrow> tf_bool \<Rightarrow> (string \<times> json) list" where
  "setBoolField input key v =
     (if \<not> BoolIsNull v \<and> \<not> BoolIsUnknown v then assign key (JBool (ValueBool v)) input
      else input)"

definition stringOrNull :: "string \<Rightarrow> tf_string" where
  "stringOrNull s = (if s \<noteq> [] then StringValue s else StringNull)"

section \<open>internal/client/client.go: the path builder\<close>

text \<open>
  \<open>systemCollections\<close> is the map literal of \<^verbatim>\<open>buildCollectionPath\<close>; indexing a Go
  \<^verbatim>\<open>map[string]bool\<close> with a key that is absent yields \<^verbatim>\<open>false\<close>.
\<close>

definition systemCollections :: "(string \<times> bool) list" where
  "systemCollections =
     [(''collections'', True), (''roles'', True), (''policies'', True), (''users'', True),
      (''folders'', True), (''files'', True), (''activity'', True), (''revisions'', True),
      (''webhooks'', True), (''flows'', True), (''operations'', True), (''dashboards'', True),
      (''panels'', True), (''shares'', True), (''settings'', True)]"

definition index_bool :: "(string \<times> bool) list \<Rightarrow> string \<Rightarrow> bool" where
  "index_bool m k = (case map_of m k of Some b \<Rightarrow> b | None \<Rightarrow> False)"

definition buildCollectionPath :: "string \<Rightarrow> string \<Rightarrow> string" where
  "buildCollectionPath collection ident =
     (if index_bool systemCollections collection then
        (if ident \<noteq> [] then ''/'' @ collection @ ''/'' @ ident
         else ''/'' @ collection)
      else if ident \<noteq> [] then ''/items/'' @ collection @ ''/'' @ ident
      else ''/items/'' @ collection)"

section \<open>internal/client/client.go: requests\<close>

text \<open>
  A Go \<^verbatim>\<open>error\<close> is its message. The state of the outside world that the client
  changes is the list of requests it has sent, that is, given to
  \<^verbatim>\<open>c.HTTPClient.Do\<close>, oldest first; every operation takes that list and returns it,
  extended by the requests it sent.

  \<open>HTTPClient\<close> stands for \<^verbatim>\<open>c.HTTPClient.Do\<close>: it answers a request with a response
  or with an error. No operation sends the same request twice, so a function of the
  request covers a server whose answers change with time. The body of a response is
  read later and reading may fail, so it is a sum. A request body in this repository is always
  a map of JSON values, strings and booleans, for which \<^verbatim>\<open>json.Marshal\<close> does not fail.
\<close>

datatype error = Err string

fun Error :: "error \<Rightarrow> string" where
  "Error (Err m) = m"

datatype http_method = MethodGet | MethodPost | MethodPatch | MethodDelete

record request =
  req_method :: http_method
  req_url :: string
  req_header :: "(string \<times> string) list"
  req_body :: "json option"

record response =
  StatusCode :: int
  Body :: "error + string"

record DirectusError =
  Message :: string
  Code :: string

record Client =
  BaseURL :: string
  Token :: string
  HTTPClient :: "request \<Rightarrow> error + response"

text \<open>
  \<^verbatim>\<open>http.NewRequestWithContext\<close> is called with one of the four method constants and
  the context of the caller, so it fails exactly when \<^verbatim>\<open>url.Parse\<close> rejects the URL. A
  \<open>url_parser\<close> gives the error of \<^verbatim>\<open>url.Parse\<close> for a URL, or \<open>None\<close> when it parses.
  \<^verbatim>\<open>url.Parse\<close> cuts the query off at the first \<open>?\<close> and does not look into it, its
  check for control characters sees the query too, and an escape in a fragment cannot run
  across a \<open>?\<close>. Hence a URL that parses with \<open>?\<close> and a query appended parses
  without them; the type holds the parsers that have this property.
\<close>

typedef url_parser =
  "{f :: string \<Rightarrow> error option. \<forall>u q. f (u @ ''?'' @ q) = None \<longrightarrow> f u = None}"
  by (rule exI [of _ "\<lambda>u. None"]) simp

text \<open>The wire structs of the provider that responses are decoded into.\<close>

record accessRecordResponse =
  ID :: string
  Policy :: string

record roleWithPoliciesResponse =
  rwp_ID :: string
  Policies :: "accessRecordResponse list"

record policyAPIResponse =
  api_ID :: string
  api_Name :: string
  api_Icon :: string
  api_Description :: string
  api_IPAccess :: "string list"
  api_EnforceTFA :: bool
  api_AdminAccess :: bool
  api_AppAccess :: bool

text \<open>
  Functions of the Go standard library that the code calls and whose result the model
  takes as given: \<^verbatim>\<open>url.Parse\<close>, \<^verbatim>\<open>json.Unmarshal\<close> into an \<^verbatim>\<open>ErrorResponse\<close>
  (its \<^verbatim>\<open>Errors\<close> list),
  \<^verbatim>\<open>url.Values.Encode\<close> of the query parameters, and the JSON decoding of a response
  body into \<^verbatim>\<open>struct{Data roleWithPoliciesResponse}\<close> and
  \<^verbatim>\<open>struct{Data policyAPIResponse}\<close> (the \<^verbatim>\<open>Data\<close> field is what is kept).
\<close>

record stdlib =
  url_Parser :: url_parser
  Unmarshal_ErrorResponse :: "string \<Rightarrow> error + DirectusError list"
  Values_Encode :: "(string \<times> string) list \<Rightarrow> string"
  Decode_roleWithPolicies :: "string \<Rightarrow> error + roleWithPoliciesResponse"
  Decode_policy :: "string \<Rightarrow> error + policyAPIResponse"

definition url_Parse :: "stdlib \<Rightarrow> string \<Rightarrow> error option" where
  "url_Parse L rawURL = Rep_url_parser (url_Parser L) rawURL"

text \<open>\<^verbatim>\<open>%d\<close> of \<^verbatim>\<open>fmt\<close>: an integer in decimal.\<close>

function showNat :: "nat \<Rightarrow> string" where
  "showNat n = (if n < 10 then [char_of (48 + n)] else showNat (n div 10) @ [char_of (48 + n mod 10)])"
  by pat_completeness auto
termination
  by (relation "measure id") auto

definition showInt :: "int \<Rightarrow> string" where
  "showInt i = (if i < 0 then CHR ''-'' # showNat (nat (- i)) else showNat (nat i))"

definition handleErrorResponse :: "stdlib \<Rightarrow> response \<Rightarrow> error" where
  "handleErrorResponse L resp =
     (case Body resp of
        Inl err \<Rightarrow>
          Err (''HTTP '' @ showInt (StatusCode resp) @ '': failed to read error response: '' @ Error err)
      | Inr bodyBytes \<Rightarrow>
          (case Unmarshal_ErrorResponse L bodyBytes of
             Inl err \<Rightarrow> Err (''HTTP '' @ showInt (StatusCode resp) @ '': '' @ bodyBytes)
           | Inr errors \<Rightarrow>
               (case errors of
                  firstErr # rest \<Rightarrow>
                    (if Message firstErr \<noteq> [] then
                       (if Code firstErr \<noteq> [] then
                          Err (''HTTP '' @ showInt (StatusCode resp) @ '' ['' @ Code firstErr @ '']: ''
                               @ Message firstErr)
                        else Err (''HTTP '' @ showInt (StatusCode resp) @ '': '' @ Message firstErr))
                     else Err (''HTTP '' @ showInt (StatusCode resp) @ '': '' @ bodyBytes))
                | [] \<Rightarrow> Err (''HTTP '' @ showInt (StatusCode resp) @ '': '' @ bodyBytes))))"

definition doRequest ::
  "stdlib \<Rightarrow> Client \<Rightarrow> http_method \<Rightarrow> string \<Rightarrow> json option \<Rightarrow> request list
     \<Rightarrow> request list \<times> (error + response)" where
  "doRequest L c method path body w =
     (let fullURL = BaseURL c @ path
      in case url_Parse L fullURL of
           Some err \<Rightarrow> (w, Inl (Err (''failed to create request: '' @ Error err)))
         | None \<Rightarrow>
             (let req = \<lparr>req_method = method, req_url = fullURL,
                         req_header = [(''Content-Type'', ''application/json''),
                                       (''Authorization'', ''Bearer '' @ Token c)],
                         req_body = body\<rparr>;
                  w' = w @ [req]
              in case HTTPClient c req of
                   Inl err \<Rightarrow> (w', Inl (Err (''failed to send request: '' @ Error err)))
                 | Inr resp \<Rightarrow>
                     (if StatusCode resp \<ge> 400 then (w', Inl (handleErrorResponse L resp))
                      else (w', Inr resp))))"

text \<open>
  \<^verbatim>\<open>json.NewDecoder(resp.Body).Decode(result)\<close>: the \<open>result\<close> argument of the client's
  operations is the decoder into the type its pointer has.
\<close>

definition Decode :: "(string \<Rightarrow> error + 'a) \<Rightarrow> response \<Rightarrow> error + 'a" where
  "Decode result resp =
     (case Body resp of
        Inl err \<Rightarrow> Inl (Err (''failed to decode response: '' @ Error err))
      | Inr s \<Rightarrow>
          (case result s of
             Inl err \<Rightarrow> Inl (Err (''failed to decode response: '' @ Error err))
           | Inr v \<Rightarrow> Inr v))"

definition Client_Get ::
  "stdlib \<Rightarrow> Client \<Rightarrow> string \<Rightarrow> string \<Rightarrow> (string \<Rightarrow> error + 'a) \<Rightarrow> request list
     \<Rightarrow> request list \<times> (error + 'a)" where
  "Client_Get L c collection ident result w =
     (if collection = [] then (w, Inl (Err ''collection is required''))
      else if ident = [] then (w, Inl (Err ''id is required''))
      else
        (let path = buildCollectionPath collection ident
         in case doRequest L c MethodGet path None w of
              (w', Inl err) \<Rightarrow> (w', Inl err)
            | (w', Inr resp) \<Rightarrow> (w', Decode result resp)))"

definition Client_GetWithParams ::
  "stdlib \<Rightarrow> Client \<Rightarrow> string \<Rightarrow> string \<Rightarrow> (string \<times> string) list \<Rightarrow> (string \<Rightarrow> error + 'a)
     \<Rightarrow> request list \<Rightarrow> request list \<times> (error + 'a)" where
  "Client_GetWithParams L c collection ident params result w =
     (if collection = [] then (w, Inl (Err ''collection is required''))
      else if ident = [] then (w, Inl (Err ''id is required''))
      else
        (let path0 = buildCollectionPath collection ident;
             path = (if length params > 0 then path0 @ ''?'' @ Values_Encode L params else path0)
         in case doRequest L c MethodGet path None w of
              (w', Inl err) \<Rightarrow> (w', Inl err)
            | (w', Inr resp) \<Rightarrow> (w', Decode result resp)))"

definition Client_List ::
  "stdlib \<Rightarrow> Client \<Rightarrow> string \<Rightarrow> (string \<Rightarrow> error + 'a) \<Rightarrow> request list
     \<Rightarrow> request list \<times> (error + 'a)" where
  "Client_List L c collection result w =
     (if collection = [] then (w, Inl (Err ''collection is required''))
      else
        (let path = buildCollectionPath collection []
         in case doRequest L c MethodGet path None w of
              (w', Inl err) \<Rightarrow> (w', Inl err)
            | (w', Inr resp) \<Rightarrow> (w', Decode result resp)))"

text \<open>
  \<open>Create\<close> and \<open>Update\<close> decode the response only when \<open>result\<close> is not nil; \<open>None\<close> in
  the result says that nothing was decoded. A nil \<open>data\<close> is \<open>None\<close>.
\<close>

definition decode_if_wanted :: "(string \<Rightarrow> error + 'a) option \<Rightarrow> response \<Rightarrow> error + 'a option" where
  "decode_if_wanted result resp =
     (case result of
        None \<Rightarrow> Inr None
      | Some dec \<Rightarrow> (case Decode dec resp of Inl err \<Rightarrow> Inl err | Inr v \<Rightarrow> Inr (Some v)))"

definition Client_Create ::
  "stdlib \<Rightarrow> Client \<Rightarrow> string \<Rightarrow> json option \<Rightarrow> (string \<Rightarrow> error + 'a) option \<Rightarrow> request list
     \<Rightarrow> request list \<times> (error + 'a option)" where
  "Client_Create L c collection data result w =
     (if collection = [] then (w, Inl (Err ''collection is required''))
      else if data = None then (w, Inl (Err ''data is required''))
      else
        (let path = buildCollectionPath collection []
         in case doRequest L c MethodPost path data w of
              (w', Inl err) \<Rightarrow> (w', Inl err)
            | (w', Inr resp) \<Rightarrow> (w', decode_if_wanted result resp)))"

definition Client_Update ::
  "stdlib \<Rightarrow> Client \<Rightarrow> string \<Rightarrow> string \<Rightarrow> json option \<Rightarrow> (string \<Rightarrow> error + 'a) option
     \<Rightarrow> request list \<Rightarrow> request list \<times> (error + 'a option)" where
  "Client_Update L c collection ident data result w =
     (if collection = [] then (w, Inl (Err ''collection is required''))
      else if ident = [] then (w, Inl (Err ''id is required''))
      else if data = None then (w, Inl (Err ''data is required''))
      else
        (let path = buildCollectionPath collection ident
         in case doRequest L c MethodPatch path data w of
              (w', Inl err) \<Rightarrow> (w', Inl err)
            | (w', Inr resp) \<Rightarrow> (w', decode_if_wanted result resp)))"

definition Client_Delete ::
  "stdlib \<Rightarrow> Client \<Rightarrow> string \<Rightarrow> string \<Rightarrow> request list \<Rightarrow> request list \<times> (error + unit)" where
  "Client_Delete L c collection ident w =
     (if collection = [] then (w, Inl (Err ''collection is required''))
      else if ident = [] then (w, Inl (Err ''id is required''))
      else
        (let path = buildCollectionPath collection ident
         in case doRequest L c MethodDelete path None w of
              (w', Inl err) \<Rightarrow> (w', Inl err)
            | (w', Inr resp) \<Rightarrow> (w', Inr ())))"

section \<open>Strings of the Go standard library\<close>

text \<open>
  A Go string is a sequence of bytes, as a \<open>string\<close> is here. \<^verbatim>\<open>strings.Split\<close> with a
  separator of one byte cuts at every occurrence of it (a string without the separator,
  the empty one too, gives one segment); \<^verbatim>\<open>strings.Join\<close> puts the separator between the
  elements.
\<close>

fun Split :: "string \<Rightarrow> char \<Rightarrow> string list" where
  "Split [] sep = [[]]"
| "Split (c # cs) sep =
     (if c = sep then [] # Split cs sep
      else (case Split cs sep of p # ps \<Rightarrow> (c # p) # ps | [] \<Rightarrow> [[c]]))"

fun Join :: "string list \<Rightarrow> string \<Rightarrow> string" where
  "Join [] sep = []"
| "Join [x] sep = x"
| "Join (x # y # ys) sep = x @ sep @ Join (y # ys) sep"

text \<open>
  \<^verbatim>\<open>strings.TrimSpace\<close> removes the leading and the trailing white space that
  \<^verbatim>\<open>unicode.IsSpace\<close> accepts. \<open>unicodeSpaces\<close> lists the UTF-8 encodings of those code
  points: U+0009 to U+000D, U+0020, U+0085, U+00A0, U+1680, U+2000 to U+200A, U+2028,
  U+2029, U+202F, U+205F, U+3000. A byte that starts no valid encoding is no white space.
\<close>

definition unicodeSpaces :: "string list" where
  "unicodeSpaces =
     [[CHR 0x09], [CHR 0x0A], [CHR 0x0B], [CHR 0x0C], [CHR 0x0D], [CHR 0x20],
      [CHR 0xC2, CHR 0x85], [CHR 0xC2, CHR 0xA0],
      [CHR 0xE1, CHR 0x9A, CHR 0x80],
      [CHR 0xE2, CHR 0x80, CHR 0x80], [CHR 0xE2, CHR 0x80, CHR 0x81],
      [CHR 0xE2, CHR 0x80, CHR 0x82], [CHR 0xE2, CHR 0x80, CHR 0x83],
      [CHR 0xE2, CHR 0x80, CHR 0x84], [CHR 0xE2, CHR 0x80, CHR 0x85],
      [CHR 0xE2, CHR 0x80, CHR 0x86], [CHR 0xE2, CHR 0x80, CHR 0x87],
      [CHR 0xE2, CHR 0x80, CHR 0x88], [CHR 0xE2, CHR 0x80, CHR 0x89],
      [CHR 0xE2, CHR 0x80, CHR 0x8A],
      [CHR 0xE2, CHR 0x80, CHR 0xA8], [CHR 0xE2, CHR 0x80, CHR 0xA9],
      [CHR 0xE2, CHR 0x80, CHR 0xAF],
      [CHR 0xE2, CHR 0x81, CHR 0x9F],
      [CHR 0xE3, CHR 0x80, CHR 0x80]]"

definition spaceLen :: "string list \<Rightarrow> string \<Rightarrow> nat" where
  "spaceLen spaces s =
     (case List.find (\<lambda>sp. sp \<noteq> [] \<and> take (length sp) s = sp) spaces of
        None \<Rightarrow> 0
      | Some sp \<Rightarrow> length sp)"

function trimLeading :: "string list \<Rightarrow> string \<Rightarrow> string" where
  "trimLeading spaces s =
     (if spaceLen spaces s = 0 then s else trimLeading spaces (drop (spaceLen spaces s) s))"
  by pat_completeness auto
termination
proof (relation "measure (\<lambda>(spaces, s). length s)")
  show "wf (measure (\<lambda>(spaces, s). length s))" by simp
next
  fix spaces :: "string list" and s :: string
  assume pos: "spaceLen spaces s \<noteq> 0"
  then obtain sp where "sp \<noteq> []" and "take (length sp) s = sp"
    by (auto simp: spaceLen_def find_Some_iff split: option.splits)
  then have "s \<noteq> []" by auto
  with pos show "((spaces, drop (spaceLen spaces s) s), (spaces, s)) \<in> measure (\<lambda>(spaces, s). length s)"
    by simp
qed

definition TrimSpace :: "string \<Rightarrow> string" where
  "TrimSpace s = rev (trimLeading (map rev unicodeSpaces) (rev (trimLeading unicodeSpaces s)))"

section \<open>The policy resource\<close>

record PolicyResourceModel =
  policy_ID :: tf_string
  policy_Name :: tf_string
  policy_Icon :: tf_string
  policy_Description :: tf_string
  policy_IPAccess :: tf_string
  policy_EnforceTFA :: tf_bool
  policy_AdminAccess :: tf_bool
  policy_AppAccess :: tf_bool

definition policy_toModel :: "policyAPIResponse \<Rightarrow> PolicyResourceModel" where
  "policy_toModel p =
     (let ipAccess = (if length (api_IPAccess p) > 0 then StringValue (Join (api_IPAccess p) '','')
                      else StringNull)
      in \<lparr>policy_ID = StringValue (api_ID p),
          policy_Name = StringValue (api_Name p),
          policy_Icon = stringOrNull (api_Icon p),
          policy_Description = stringOrNull (api_Description p),
          policy_IPAccess = ipAccess,
          policy_EnforceTFA = BoolValue (api_EnforceTFA p),
          policy_AdminAccess = BoolValue (api_AdminAccess p),
          policy_AppAccess = BoolValue (api_AppAccess p)\<rparr>)"

text \<open>
  The loop of \<^verbatim>\<open>setIPAccessField\<close> over the segments of the string: each is trimmed and
  kept when it is not empty.
\<close>

definition trimmedSegments :: "string \<Rightarrow> string list" where
  "trimmedSegments csv =
     (let parts = Split csv CHR '',''
      in filter (\<lambda>s. s \<noteq> []) (map TrimSpace parts))"

definition setIPAccessField :: "(string \<times> json) list \<Rightarrow> tf_string \<Rightarrow> (string \<times> json) list" where
  "setIPAccessField input v =
     (if IsNull v \<or> IsUnknown v then input
      else
        (let csv = ValueString v
         in if csv = [] then input
            else
              (let trimmed = trimmedSegments csv
               in if length trimmed > 0 then assign ''ip_access'' (JArray (map JString trimmed)) input
                  else input)))"

text \<open>
  What a resource operation leaves in its response: the error diagnostics and the value
  given to \<^verbatim>\<open>resp.State.Set\<close>, if that was called. \<open>AddError\<close> carries the summary
  and the detail of \<^verbatim>\<open>resp.Diagnostics.AddError\<close>; \<open>ConversionError\<close> is an error that
  the plugin framework reports when it converts a value.
\<close>

datatype diagnostic = AddError string string | ConversionError

record 'm crud_response =
  diagnostics :: "diagnostic list"
  state :: "'m option"

definition zero_policyAPIResponse :: policyAPIResponse where
  "zero_policyAPIResponse =
     \<lparr>api_ID = [], api_Name = [], api_Icon = [], api_Description = [], api_IPAccess = [],
      api_EnforceTFA = False, api_AdminAccess = False, api_AppAccess = False\<rparr>"

text \<open>
  The request bodies that \<^verbatim>\<open>Create\<close> and \<^verbatim>\<open>Update\<close> build before they call the client.
\<close>

definition policyCreateBody :: "PolicyResourceModel \<Rightarrow> (string \<times> json) list" where
  "policyCreateBody plan =
     (let reqBody0 = [(''name'', JString (ValueString (policy_Name plan)))];
          reqBody1 = setStringField reqBody0 ''icon'' (policy_Icon plan);
          reqBody2 = setStringField reqBody1 ''description'' (policy_Description plan);
          reqBody3 = setIPAccessField reqBody2 (policy_IPAccess plan);
          reqBody4 = setBoolField reqBody3 ''enforce_tfa'' (policy_EnforceTFA plan);
          reqBody5 = setBoolField reqBody4 ''admin_access'' (policy_AdminAccess plan)
      in setBoolField reqBody5 ''app_access'' (policy_AppAccess plan))"

definition policyUpdateBody :: "PolicyResourceModel \<Rightarrow> (string \<times> json) list" where
  "policyUpdateBody plan =
     (let reqBody0 = setStringField [] ''name'' (policy_Name plan);
          reqBody1 = setStringField reqBody0 ''icon'' (policy_Icon plan);
          reqBody2 = setStringField reqBody1 ''description'' (policy_Description plan);
          reqBody3 = setIPAccessField reqBody2 (policy_IPAccess plan);
          reqBody4 = setBoolField reqBody3 ''enforce_tfa'' (policy_EnforceTFA plan);
          reqBody5 = setBoolField reqBody4 ''admin_access'' (policy_AdminAccess plan)
      in setBoolField reqBody5 ''app_access'' (policy_AppAccess plan))"

definition PolicyResource_Create ::
  "stdlib \<Rightarrow> Client \<Rightarrow> PolicyResourceModel \<Rightarrow> request list
     \<Rightarrow> request list \<times> PolicyResourceModel crud_response" where
  "PolicyResource_Create L c plan w =
     (let reqBody = policyCreateBody plan
      in case Client_Create L c ''policies'' (Some (JObject reqBody)) (Some (Decode_policy L)) w of
           (w', Inl err) \<Rightarrow>
             (w', \<lparr>diagnostics = [AddError ''Error Creating Policy'' (''Could not create policy: '' @ Error err)],
                   state = None\<rparr>)
         | (w', Inr response) \<Rightarrow>
             (w', \<lparr>diagnostics = [],
                   state = Some (policy_toModel
                             (case response of Some d \<Rightarrow> d | None \<Rightarrow> zero_policyAPIResponse))\<rparr>))"

definition PolicyResource_Update ::
  "stdlib \<Rightarrow> Client \<Rightarrow> PolicyResourceModel \<Rightarrow> request list
     \<Rightarrow> request list \<times> PolicyResourceModel crud_response" where
  "PolicyResource_Update L c plan w =
     (let reqBody = policyUpdateBody plan
      in case Client_Update L c ''policies'' (ValueString (policy_ID plan)) (Some (JObject reqBody))
                (Some (Decode_policy L)) w of
           (w', Inl err) \<Rightarrow>
             (w', \<lparr>diagnostics = [AddError ''Error Updating Policy''
                      (''Could not update policy '' @ ValueString (policy_ID plan) @ '': '' @ Error err)],
                   state = None\<rparr>)
         | (w', Inr response) \<Rightarrow>
             (w', \<lparr>diagnostics = [],
                   state = Some (policy_toModel
                             (case response of Some d \<Rightarrow> d | None \<Rightarrow> zero_policyAPIResponse))\<rparr>))"

section \<open>The role resource\<close>

datatype tf_list = ListNull | ListUnknown | ListValue "tf_string list"

record RoleResourceModel =
  role_ID :: tf_string
  role_Name :: tf_string
  role_Icon :: tf_string
  role_Description :: tf_string
  role_Parent :: tf_string
  role_Children :: tf_list
  role_Users :: tf_list

definition buildRoleInput :: "RoleResourceModel \<Rightarrow> bool \<Rightarrow> (string \<times> json) list" where
  "buildRoleInput data isCreate =
     (let input0 = (if isCreate then assign ''name'' (JString (ValueString (role_Name data))) []
                    else setStringField [] ''name'' (role_Name data));
          input1 = setStringField input0 ''icon'' (role_Icon data);
          input2 = setStringField input1 ''description'' (role_Description data)
      in if \<not> isCreate then setNullableStringField input2 ''parent'' (role_Parent data)
         else setStringField input2 ''parent'' (role_Parent data))"

section \<open>The collection resource\<close>

record CollectionResourceModel =
  coll_Collection :: tf_string
  coll_Icon :: tf_string
  coll_Note :: tf_string
  coll_Hidden :: tf_bool
  coll_Singleton :: tf_bool
  coll_SortField :: tf_string
  coll_Archive :: tf_string
  coll_Color :: tf_string

text \<open>The \<^verbatim>\<open>meta\<close> map that \<^verbatim>\<open>buildCollectionInput\<close> fills before it looks at its length.\<close>

definition collectionMeta :: "CollectionResourceModel \<Rightarrow> (string \<times> json) list" where
  "collectionMeta data =
     (let meta0 = setStringField [] ''icon'' (coll_Icon data);
          meta1 = setStringField meta0 ''note'' (coll_Note data);
          meta2 = setBoolField meta1 ''hidden'' (coll_Hidden data);
          meta3 = setBoolField meta2 ''singleton'' (coll_Singleton data);
          meta4 = setStringField meta3 ''sort_field'' (coll_SortField data);
          meta5 = setStringField meta4 ''archive_field'' (coll_Archive data)
      in setStringField meta5 ''color'' (coll_Color data))"

definition buildCollectionInput :: "CollectionResourceModel \<Rightarrow> bool \<Rightarrow> (string \<times> json) list" where
  "buildCollectionInput data isCreate =
     (let input0 = (if isCreate
                    then assign ''schema'' (JObject [])
                           (assign ''collection'' (JString (ValueString (coll_Collection data))) [])
                    else []);
          meta = collectionMeta data
      in if length meta > 0 then assign ''meta'' (JObject meta) input0 else input0)"

section \<open>The role-policies attachment resource\<close>

text \<open>
  \<^verbatim>\<open>types.Set\<close> with string elements. \<^verbatim>\<open>ElementsAs(ctx, &desiredPolicyIDs, false)\<close>
  into a \<^verbatim>\<open>[]string\<close> gives the elements of a known set of known strings and the nil
  slice for a null set; an unknown set and a null or unknown element are conversion
  errors of the framework (\<open>None\<close>).
\<close>

datatype tf_set = SetNull | SetUnknown | SetValue "tf_string list"

fun ElementsAs :: "tf_set \<Rightarrow> string list option" where
  "ElementsAs SetNull = Some []"
| "ElementsAs SetUnknown = None"
| "ElementsAs (SetValue xs) =
     (if list_all (\<lambda>x. \<not> IsNull x \<and> \<not> IsUnknown x) xs then Some (map ValueString xs) else None)"

record RolePoliciesAttachmentModel =
  att_ID :: tf_string
  RoleID :: tf_string
  PolicyIDs :: tf_set

definition readRolePolicies ::
  "stdlib \<Rightarrow> Client \<Rightarrow> string \<Rightarrow> request list
     \<Rightarrow> request list \<times> (error + accessRecordResponse list)" where
  "readRolePolicies L c roleID w =
     (let params = [(''fields'', ''id,policies.id,policies.policy'')]
      in case Client_GetWithParams L c ''roles'' roleID params (Decode_roleWithPolicies L) w of
           (w', Inl err) \<Rightarrow> (w', Inl err)
         | (w', Inr result) \<Rightarrow> (w', Inr (Policies result)))"

text \<open>
  The four loops that \<^verbatim>\<open>Create\<close> and \<^verbatim>\<open>Update\<close> both run after the read, and the
  construction of the body of the PATCH.
\<close>

definition existingMap_of :: "accessRecordResponse list \<Rightarrow> (string \<times> string) list" where
  "existingMap_of existing = foldl (\<lambda>m rec. assign (Policy rec) (ID rec) m) [] existing"

definition toCreate_of :: "(string \<times> string) list \<Rightarrow> string list \<Rightarrow> json list" where
  "toCreate_of existingMap desiredPolicyIDs =
     map (\<lambda>pid. JObject [(''policy'', JString pid)])
       (filter (\<lambda>pid. map_of existingMap pid = None) desiredPolicyIDs)"

definition desiredSet_of :: "string list \<Rightarrow> (string \<times> bool) list" where
  "desiredSet_of desiredPolicyIDs = foldl (\<lambda>m pid. assign pid True m) [] desiredPolicyIDs"

definition toDelete_of :: "(string \<times> bool) list \<Rightarrow> accessRecordResponse list \<Rightarrow> string list" where
  "toDelete_of desiredSet existing =
     map ID (filter (\<lambda>rec. \<not> index_bool desiredSet (Policy rec)) existing)"

definition patchBody_of :: "json list \<Rightarrow> string list \<Rightarrow> json" where
  "patchBody_of toCreate toDelete =
     (let policiesOp0 = (if length toCreate > 0 then assign ''create'' (JArray toCreate) [] else []);
          policiesOp = (if length toDelete > 0
                        then assign ''delete'' (JArray (map JString toDelete)) policiesOp0
                        else policiesOp0)
      in JObject [(''policies'', JObject policiesOp)])"

definition RolePoliciesAttachmentResource_Create ::
  "stdlib \<Rightarrow> Client \<Rightarrow> RolePoliciesAttachmentModel \<Rightarrow> request list
     \<Rightarrow> request list \<times> RolePoliciesAttachmentModel crud_response" where
  "RolePoliciesAttachmentResource_Create L c plan w =
     (let roleID = ValueString (RoleID plan)
      in case ElementsAs (PolicyIDs plan) of
           None \<Rightarrow> (w, \<lparr>diagnostics = [ConversionError], state = None\<rparr>)
         | Some desiredPolicyIDs \<Rightarrow>
             (case readRolePolicies L c roleID w of
                (w1, Inl err) \<Rightarrow>
                  (w1, \<lparr>diagnostics = [AddError ''Error Reading Role Policies''
                           (''Could not read policies for role '' @ roleID @ '': '' @ Error err)],
                        state = None\<rparr>)
              | (w1, Inr existing) \<Rightarrow>
                  (let existingMap = existingMap_of existing;
                       toCreate = toCreate_of existingMap desiredPolicyIDs;
                       desiredSet = desiredSet_of desiredPolicyIDs;
                       toDelete = toDelete_of desiredSet existing
                   in if length toCreate > 0 \<or> length toDelete > 0 then
                        (case Client_Update L c ''roles'' roleID (Some (patchBody_of toCreate toDelete))
                                (None :: (string \<Rightarrow> error + unit) option) w1 of
                           (w2, Inl err) \<Rightarrow>
                             (w2, \<lparr>diagnostics = [AddError ''Error Attaching Policies to Role''
                                      (''Could not update policy attachments for role '' @ roleID @ '': ''
                                       @ Error err)],
                                   state = None\<rparr>)
                         | (w2, Inr u) \<Rightarrow>
                             (w2, \<lparr>diagnostics = [],
                                   state = Some (plan\<lparr>att_ID := StringValue roleID\<rparr>)\<rparr>))
                      else (w1, \<lparr>diagnostics = [],
                                 state = Some (plan\<lparr>att_ID := StringValue roleID\<rparr>)\<rparr>))))"

definition RolePoliciesAttachmentResource_Update ::
  "stdlib \<Rightarrow> Client \<Rightarrow> RolePoliciesAttachmentModel \<Rightarrow> request list
     \<Rightarrow> request list \<times> RolePoliciesAttachmentModel crud_response" where
  "RolePoliciesAttachmentResource_Update L c plan w =
     (let roleID = ValueString (RoleID plan)
      in case ElementsAs (PolicyIDs plan) of
           None \<Rightarrow> (w, \<lparr>diagnostics = [ConversionError], state = None\<rparr>)
         | Some desiredPolicyIDs \<Rightarrow>
             (case readRolePolicies L c roleID w of
                (w1, Inl err) \<Rightarrow>
                  (w1, \<lparr>diagnostics = [AddError ''Error Reading Role Policies''
                           (''Could not read policies for role '' @ roleID @ '': '' @ Error err)],
                        state = None\<rparr>)
              | (w1, Inr existing) \<Rightarrow>
                  (let existingMap = existingMap_of existing;
                       toCreate = toCreate_of existingMap desiredPolicyIDs;
                       desiredSet = desiredSet_of desiredPolicyIDs;
                       toDelete = toDelete_of desiredSet existing
                   in if length toCreate > 0 \<or> length toDelete > 0 then
                        (case Client_Update L c ''roles'' roleID (Some (patchBody_of toCreate toDelete))
                                (None :: (string \<Rightarrow> error + unit) option) w1 of
                           (w2, Inl err) \<Rightarrow>
                             (w2, \<lparr>diagnostics = [AddError ''Error Updating Policy Attachments''
                                      (''Could not update policy attachments for role '' @ roleID @ '': ''
                                       @ Error err)],
                                   state = None\<rparr>)
                         | (w2, Inr u) \<Rightarrow>
                             (w2, \<lparr>diagnostics = [],
                                   state = Some (plan\<lparr>att_ID := StringValue roleID\<rparr>)\<rparr>))
                      else (w1, \<lparr>diagnostics = [],
                                 state = Some (plan\<lparr>att_ID := StringValue roleID\<rparr>)\<rparr>))))"

definition RolePoliciesAttachmentResource_Delete ::
  "stdlib \<Rightarrow> Client \<Rightarrow> RolePoliciesAttachmentModel \<Rightarrow> request list
     \<Rightarrow> request list \<times> RolePoliciesAttachmentModel crud_response" where
  "RolePoliciesAttachmentResource_Delete L c st w =
     (let roleID = ValueString (RoleID st)
      in case readRolePolicies L c roleID w of
           (w1, Inl err) \<Rightarrow>
             (w1, \<lparr>diagnostics = [AddError ''Error Reading Role Policies''
                      (''Could not read policies for role '' @ roleID @ '': '' @ Error err)],
                   state = None\<rparr>)
         | (w1, Inr existing) \<Rightarrow>
             (if length existing = 0 then (w1, \<lparr>diagnostics = [], state = None\<rparr>)
              else
                (let accessIDs = map ID existing;
                     patchBody = JObject [(''policies'',
                                   JObject [(''delete'', JArray (map JString accessIDs))])]
                 in case Client_Update L c ''roles'' roleID (Some patchBody)
                           (None :: (string \<Rightarrow> error + unit) option) w1 of
                      (w2, Inl err) \<Rightarrow>
                        (w2, \<lparr>diagnostics = [AddError ''Error Detaching Policies from Role''
                                 (''Could not detach policies from role '' @ roleID @ '': '' @ Error err)],
                              state = None\<rparr>)
                    | (w2, Inr u) \<Rightarrow> (w2, \<lparr>diagnostics = [], state = None\<rparr>))))"

section \<open>Test doubles\<close>

text \<open>
  The doubles of the provider's unit tests: an HTTP client that gives one fixed answer to
  every request, and a JSON decoding that finds the given access records in the body of
  the role \<open>role-uuid\<close>. The URL parser of the doubles rejects a URL that holds a line
  feed, one of the control characters that \<^verbatim>\<open>url.Parse\<close> rejects.
\<close>

definition mock_url_parser :: url_parser where
  "mock_url_parser =
     Abs_url_parser (\<lambda>u. if CHR 0x0A \<in> set u
                          then Some (Err ''net/url: invalid control character in URL'')
                          else None)"

definition mock_Client :: "(error + response) \<Rightarrow> Client" where
  "mock_Client answer =
     \<lparr>BaseURL = ''http://directus.test'', Token = ''test-token'', HTTPClient = (\<lambda>req. answer)\<rparr>"

definition mock_stdlib :: "accessRecordResponse list \<Rightarrow> stdlib" where
  "mock_stdlib recs =
     \<lparr>url_Parser = mock_url_parser,
      Unmarshal_ErrorResponse = (\<lambda>s. Inr []),
      Values_Encode = (\<lambda>params. ''fields=id%2Cpolicies.id%2Cpolicies.policy''),
      Decode_roleWithPolicies = (\<lambda>s. Inr \<lparr>rwp_ID = ''role-uuid'', Policies = recs\<rparr>),
      Decode_policy = (\<lambda>s. Inr zero_policyAPIResponse)\<rparr>"

definition mockJSONResponse :: "int \<Rightarrow> string \<Rightarrow> error + response" where
  "mockJSONResponse status body = Inr \<lparr>StatusCode = status, Body = Inr body\<rparr>"

section \<open>Lemmas on the shared values\<close>

lemma map_of_assign: "map_of (assign k v m) = (map_of m)(k \<mapsto> v)"
  by (induction m) auto

lemma url_Parse_without_query:
  "url_Parse L (u @ ''?'' @ q) = None \<Longrightarrow> url_Parse L u = None"
  using Rep_url_parser [of "url_Parser L"] unfolding url_Parse_def by blast

lemma url_Parse_mock:
  "url_Parse (mock_stdlib recs) u =
     (if CHR 0x0A \<in> set u then Some (Err ''net/url: invalid control character in URL'') else None)"
proof -
  have "(\<lambda>u. if CHR 0x0A \<in> set u then Some (Err ''net/url: invalid control character in URL'')
              else None)
        \<in> {f :: string \<Rightarrow> error option. \<forall>u q. f (u @ ''?'' @ q) = None \<longrightarrow> f u = None}"
    by (simp split: if_splits)
  then show ?thesis
    by (simp add: url_Parse_def mock_stdlib_def mock_url_parser_def Abs_url_parser_inverse)
qed

lemma index_bool_systemCollections:
  "index_bool systemCollections c \<longleftrightarrow>
     c \<in> {''collections'', ''roles'', ''policies'', ''users'', ''folders'', ''files'',
          ''activity'', ''revisions'', ''webhooks'', ''flows'', ''operations'',
          ''dashboards'', ''panels'', ''shares'', ''settings''}"
  by (simp add: index_bool_def systemCollections_def)

lemma assign_not_Nil: "assign k v m \<noteq> []"
  by (cases m) (auto split: if_splits)

lemma map_of_setStringField:
  "map_of (setStringField m k v) k' =
     (if k' = k \<and> \<not> IsNull v \<and> \<not> IsUnknown v then Some (JString (ValueString v)) else map_of m k')"
  by (simp add: setStringField_def map_of_assign)

lemma map_of_setBoolField:
  "map_of (setBoolField m k v) k' =
     (if k' = k \<and> \<not> BoolIsNull v \<and> \<not> BoolIsUnknown v then Some (JBool (ValueBool v)) else map_of m k')"
  by (simp add: setBoolField_def map_of_assign)

lemma map_of_setNullableStringField:
  "map_of (setNullableStringField m k v) k' =
     (if k' = k \<and> \<not> IsUnknown v then Some (if IsNull v then JNull else JString (ValueString v))
      else map_of m k')"
  by (simp add: setNullableStringField_def map_of_assign)

lemma setStringField_Nil: "setStringField m k v = [] \<longleftrightarrow> m = [] \<and> (IsNull v \<or> IsUnknown v)"
  by (simp add: setStringField_def assign_not_Nil)

lemma setBoolField_Nil: "setBoolField m k v = [] \<longleftrightarrow> m = [] \<and> (BoolIsNull v \<or> BoolIsUnknown v)"
  by (simp add: setBoolField_def assign_not_Nil)

lemma string_is_set: "\<not> IsNull v \<and> \<not> IsUnknown v \<longleftrightarrow> (\<exists>s. v = StringValue s)"
  by (cases v) auto

lemma bool_is_set: "\<not> BoolIsNull v \<and> \<not> BoolIsUnknown v \<longleftrightarrow> (\<exists>b. v = BoolValue b)"
  by (cases v) auto

section \<open>Path resolution\<close>

text \<open>
  C6. The path builder is a function of the collection name and the identifier alone.
  For a name of the fixed system set it returns \<open>/{collection}/{id}\<close> when the identifier
  is not empty and \<open>/{collection}\<close> when it is; for every other name it returns
  \<open>/items/{collection}/{id}\<close> and \<open>/items/{collection}\<close>. The four rows of the
  path resolution table are instances.
\<close>

theorem buildCollectionPath_resolution:
  fixes c i :: string
  defines "sys \<equiv> {''collections'', ''roles'', ''policies'', ''users'', ''folders'', ''files'',
          ''activity'', ''revisions'', ''webhooks'', ''flows'', ''operations'',
          ''dashboards'', ''panels'', ''shares'', ''settings''}"
  shows "(c \<in> sys \<and> i \<noteq> [] \<longrightarrow> buildCollectionPath c i = ''/'' @ c @ ''/'' @ i)
       \<and> (c \<in> sys \<and> i = [] \<longrightarrow> buildCollectionPath c i = ''/'' @ c)
       \<and> (c \<notin> sys \<and> i \<noteq> [] \<longrightarrow> buildCollectionPath c i = ''/items/'' @ c @ ''/'' @ i)
       \<and> (c \<notin> sys \<and> i = [] \<longrightarrow> buildCollectionPath c i = ''/items/'' @ c)
       \<and> buildCollectionPath ''roles'' ''x'' = ''/roles/x''
       \<and> buildCollectionPath ''roles'' [] = ''/roles''
       \<and> buildCollectionPath ''articles'' ''1'' = ''/items/articles/1''
       \<and> buildCollectionPath ''articles'' [] = ''/items/articles''"
proof -
  have sys: "\<And>n. index_bool systemCollections n \<longleftrightarrow> n \<in> sys"
    unfolding sys_def by (rule index_bool_systemCollections)
  have roles: "''roles'' \<in> sys" and articles: "''articles'' \<notin> sys"
    unfolding sys_def by simp_all
  show ?thesis
    using roles articles by (simp add: buildCollectionPath_def sys)
qed

theorem buildCollectionPath_resolution_witness:
  "buildCollectionPath ''users'' ''42'' = ''/users/42''
   \<and> buildCollectionPath ''files'' [] = ''/files''
   \<and> buildCollectionPath ''posts'' ''7'' = ''/items/posts/7''
   \<and> buildCollectionPath ''posts'' [] = ''/items/posts''"
  using buildCollectionPath_resolution [of "''users''" "''42''"]
        buildCollectionPath_resolution [of "''files''" "[]"]
        buildCollectionPath_resolution [of "''posts''" "''7''"]
        buildCollectionPath_resolution [of "''posts''" "[]"]
  by simp

section \<open>The reconciler of the role-policies attachment\<close>

subsection \<open>The loops and the requests\<close>

lemma map_of_foldl_existing:
  "map_of (foldl (\<lambda>m rec. assign (Policy rec) (ID rec) m) m0 existing) p = None
     \<longleftrightarrow> map_of m0 p = None \<and> p \<notin> Policy ` set existing"
  by (induction existing arbitrary: m0) (auto simp: map_of_assign)

lemma existingMap_of_None:
  "map_of (existingMap_of existing) p = None \<longleftrightarrow> p \<notin> Policy ` set existing"
  by (simp add: existingMap_of_def map_of_foldl_existing)

lemma index_bool_assign_True:
  "index_bool (assign k True m) p \<longleftrightarrow> p = k \<or> index_bool m p"
  by (auto simp: index_bool_def map_of_assign)

lemma index_bool_foldl_desired:
  "index_bool (foldl (\<lambda>m pid. assign pid True m) m0 ds) p \<longleftrightarrow> index_bool m0 p \<or> p \<in> set ds"
  by (induction ds arbitrary: m0) (auto simp: index_bool_assign_True)

lemma index_bool_desiredSet_of: "index_bool (desiredSet_of ds) p \<longleftrightarrow> p \<in> set ds"
  by (simp add: desiredSet_of_def index_bool_foldl_desired) (simp add: index_bool_def)

lemma toCreate_of_existingMap:
  "toCreate_of (existingMap_of existing) ds =
     map (\<lambda>pid. JObject [(''policy'', JString pid)]) (filter (\<lambda>pid. pid \<notin> Policy ` set existing) ds)"
  by (simp add: toCreate_of_def existingMap_of_None)

lemma toDelete_of_desiredSet:
  "toDelete_of (desiredSet_of ds) existing =
     map ID (filter (\<lambda>rec. Policy rec \<notin> set ds) existing)"
  by (simp add: toDelete_of_def index_bool_desiredSet_of)

lemma ElementsAs_values: "ElementsAs (SetValue (map StringValue ds)) = Some ds"
  by (simp add: list_all_iff comp_def)

lemma index_bool_roles: "index_bool systemCollections ''roles''"
  by (simp add: index_bool_systemCollections)

lemma readRolePolicies_ok_ident:
  "readRolePolicies L c roleID w = (w1, Inr obs) \<Longrightarrow> roleID \<noteq> []"
  by (auto simp: readRolePolicies_def Client_GetWithParams_def split: prod.splits sum.splits)

lemma readRolePolicies_ok:
  assumes "readRolePolicies L c roleID w = (w1, Inr obs)"
  shows "w1 = w @ [\<lparr>req_method = MethodGet,
              req_url = BaseURL c @ ''/roles/'' @ roleID @ ''?'' @
                        Values_Encode L [(''fields'', ''id,policies.id,policies.policy'')],
              req_header = [(''Content-Type'', ''application/json''),
                            (''Authorization'', ''Bearer '' @ Token c)],
              req_body = None\<rparr>]"
    and "url_Parse L (BaseURL c @ ''/roles/'' @ roleID) = None"
proof -
  have ident: "roleID \<noteq> []"
    using assms by (rule readRolePolicies_ok_ident)
  have both: "w1 = w @ [\<lparr>req_method = MethodGet,
              req_url = BaseURL c @ ''/roles/'' @ roleID @ ''?'' @
                        Values_Encode L [(''fields'', ''id,policies.id,policies.policy'')],
              req_header = [(''Content-Type'', ''application/json''),
                            (''Authorization'', ''Bearer '' @ Token c)],
              req_body = None\<rparr>]
      \<and> url_Parse L ((BaseURL c @ ''/roles/'' @ roleID) @ ''?'' @
            Values_Encode L [(''fields'', ''id,policies.id,policies.policy'')]) = None"
    using assms ident
    by (auto simp: readRolePolicies_def Client_GetWithParams_def doRequest_def Let_def
          buildCollectionPath_def index_bool_roles
          split: prod.splits sum.splits option.splits if_splits)
  from both show "w1 = w @ [\<lparr>req_method = MethodGet,
              req_url = BaseURL c @ ''/roles/'' @ roleID @ ''?'' @
                        Values_Encode L [(''fields'', ''id,policies.id,policies.policy'')],
              req_header = [(''Content-Type'', ''application/json''),
                            (''Authorization'', ''Bearer '' @ Token c)],
              req_body = None\<rparr>]" by blast
  from both show "url_Parse L (BaseURL c @ ''/roles/'' @ roleID) = None"
    by (blast intro: url_Parse_without_query)
qed

lemma Client_Update_roles_log:
  "roleID \<noteq> [] \<Longrightarrow> url_Parse L (BaseURL c @ ''/roles/'' @ roleID) = None \<Longrightarrow>
   fst (Client_Update L c ''roles'' roleID (Some b) result w) =
     w @ [\<lparr>req_method = MethodPatch, req_url = BaseURL c @ ''/roles/'' @ roleID,
      req_header = [(''Content-Type'', ''application/json''), (''Authorization'', ''Bearer '' @ Token c)],
      req_body = Some b\<rparr>]"
  by (auto simp: Client_Update_def doRequest_def Let_def buildCollectionPath_def index_bool_roles
           split: prod.splits sum.splits)

lemma Create_log:
  assumes "ElementsAs (PolicyIDs plan) = Some ds"
    and "readRolePolicies L c (ValueString (RoleID plan)) w = (w1, Inr obs)"
  shows "fst (RolePoliciesAttachmentResource_Create L c plan w) =
     (let tc = toCreate_of (existingMap_of obs) ds; td = toDelete_of (desiredSet_of ds) obs
      in if tc = [] \<and> td = [] then w1
         else fst (Client_Update L c ''roles'' (ValueString (RoleID plan)) (Some (patchBody_of tc td))
                (None :: (string \<Rightarrow> error + unit) option) w1))"
  using assms
  by (auto simp: RolePoliciesAttachmentResource_Create_def Let_def split: prod.splits sum.splits)

lemma Update_log:
  assumes "ElementsAs (PolicyIDs plan) = Some ds"
    and "readRolePolicies L c (ValueString (RoleID plan)) w = (w1, Inr obs)"
  shows "fst (RolePoliciesAttachmentResource_Update L c plan w) =
     (let tc = toCreate_of (existingMap_of obs) ds; td = toDelete_of (desiredSet_of ds) obs
      in if tc = [] \<and> td = [] then w1
         else fst (Client_Update L c ''roles'' (ValueString (RoleID plan)) (Some (patchBody_of tc td))
                (None :: (string \<Rightarrow> error + unit) option) w1))"
  using assms
  by (auto simp: RolePoliciesAttachmentResource_Update_def Let_def split: prod.splits sum.splits)

lemma patchBody_of_literal:
  "patchBody_of tc td =
     JObject [(''policies'',
        JObject ((if tc = [] then [] else [(''create'', JArray tc)]) @
                 (if td = [] then [] else [(''delete'', JArray (map JString td))])))]"
  by (simp add: patchBody_of_def)

lemma distinct_toCreate:
  "distinct ds \<Longrightarrow> distinct (map (\<lambda>pid. JObject [(''policy'', JString pid)]) (filter P ds))"
  by (simp add: distinct_map inj_on_def)

lemma mock_read:
  "readRolePolicies (mock_stdlib recs) (mock_Client (mockJSONResponse 200 b)) ''role-uuid'' [] =
     ([\<lparr>req_method = MethodGet,
        req_url = ''http://directus.test/roles/role-uuid?fields=id%2Cpolicies.id%2Cpolicies.policy'',
        req_header = [(''Content-Type'', ''application/json''),
                      (''Authorization'', ''Bearer test-token'')],
        req_body = None\<rparr>], Inr recs)"
proof -
  have enc: "Values_Encode (mock_stdlib recs) [(''fields'', ''id,policies.id,policies.policy'')] =
               ''fields=id%2Cpolicies.id%2Cpolicies.policy''"
    and dec: "Decode_roleWithPolicies (mock_stdlib recs) =
               (\<lambda>s. Inr \<lparr>rwp_ID = ''role-uuid'', Policies = recs\<rparr>)"
    by (simp_all add: mock_stdlib_def)
  show ?thesis
    by (simp add: readRolePolicies_def Client_GetWithParams_def doRequest_def Decode_def
          url_Parse_mock enc dec mock_Client_def mockJSONResponse_def buildCollectionPath_def
          index_bool_roles)
qed

lemma readRolePolicies_requests:
  assumes "readRolePolicies L c roleID w = (w1, r)"
  shows "w1 = w \<or> w1 = w @ [\<lparr>req_method = MethodGet,
              req_url = BaseURL c @ ''/roles/'' @ roleID @ ''?'' @
                        Values_Encode L [(''fields'', ''id,policies.id,policies.policy'')],
              req_header = [(''Content-Type'', ''application/json''),
                            (''Authorization'', ''Bearer '' @ Token c)],
              req_body = None\<rparr>]"
  using assms
  by (auto simp: readRolePolicies_def Client_GetWithParams_def doRequest_def Let_def
        buildCollectionPath_def index_bool_roles
        split: prod.splits sum.splits option.splits if_splits)

lemma toCreate_of_Nil_iff:
  "toCreate_of (existingMap_of obs) ds = [] \<longleftrightarrow> set ds \<subseteq> Policy ` set obs"
  by (auto simp: toCreate_of_existingMap filter_empty_conv)

lemma toDelete_of_Nil_iff:
  "toDelete_of (desiredSet_of ds) obs = [] \<longleftrightarrow> Policy ` set obs \<subseteq> set ds"
  by (auto simp: toDelete_of_desiredSet filter_empty_conv)

lemma Create_noop:
  assumes "ElementsAs (PolicyIDs plan) = Some ds"
    and "readRolePolicies L c (ValueString (RoleID plan)) w = (w1, Inr obs)"
    and "set ds = Policy ` set obs"
  shows "RolePoliciesAttachmentResource_Create L c plan w =
           (w1, \<lparr>diagnostics = [],
                 state = Some (plan\<lparr>att_ID := StringValue (ValueString (RoleID plan))\<rparr>)\<rparr>)"
proof -
  have "toCreate_of (existingMap_of obs) ds = []" "toDelete_of (desiredSet_of ds) obs = []"
    using assms(3) by (simp_all add: toCreate_of_Nil_iff toDelete_of_Nil_iff)
  then show ?thesis
    using assms(1,2) by (simp add: RolePoliciesAttachmentResource_Create_def)
qed

lemma Update_noop:
  assumes "ElementsAs (PolicyIDs plan) = Some ds"
    and "readRolePolicies L c (ValueString (RoleID plan)) w = (w1, Inr obs)"
    and "set ds = Policy ` set obs"
  shows "RolePoliciesAttachmentResource_Update L c plan w =
           (w1, \<lparr>diagnostics = [],
                 state = Some (plan\<lparr>att_ID := StringValue (ValueString (RoleID plan))\<rparr>)\<rparr>)"
proof -
  have "toCreate_of (existingMap_of obs) ds = []" "toDelete_of (desiredSet_of ds) obs = []"
    using assms(3) by (simp_all add: toCreate_of_Nil_iff toDelete_of_Nil_iff)
  then show ?thesis
    using assms(1,2) by (simp add: RolePoliciesAttachmentResource_Update_def)
qed

lemma mock_read_refused:
  "readRolePolicies (mock_stdlib recs) (mock_Client (Inl e)) ''role-uuid'' [] =
     ([\<lparr>req_method = MethodGet,
        req_url = ''http://directus.test/roles/role-uuid?fields=id%2Cpolicies.id%2Cpolicies.policy'',
        req_header = [(''Content-Type'', ''application/json''),
                      (''Authorization'', ''Bearer test-token'')],
        req_body = None\<rparr>], Inl (Err (''failed to send request: '' @ Error e)))"
proof -
  have enc: "Values_Encode (mock_stdlib recs) [(''fields'', ''id,policies.id,policies.policy'')] =
               ''fields=id%2Cpolicies.id%2Cpolicies.policy''"
    by (simp add: mock_stdlib_def)
  show ?thesis
    by (simp add: readRolePolicies_def Client_GetWithParams_def doRequest_def
          url_Parse_mock enc mock_Client_def buildCollectionPath_def index_bool_roles)
qed

lemma Delete_log:
  assumes "readRolePolicies L c (ValueString (RoleID st)) w = (w1, Inr obs)" and "obs \<noteq> []"
  shows "fst (RolePoliciesAttachmentResource_Delete L c st w) =
     fst (Client_Update L c ''roles'' (ValueString (RoleID st))
            (Some (JObject [(''policies'', JObject [(''delete'', JArray (map JString (map ID obs)))])]))
            (None :: (string \<Rightarrow> error + unit) option) w1)"
  using assms
  by (auto simp: RolePoliciesAttachmentResource_Delete_def Let_def split: prod.splits sum.splits)

subsection \<open>Diff minimality\<close>

text \<open>
  C1. Let the read of the role return the relation records \<open>obs\<close> and let the plan hold
  the set \<open>D\<close> of desired policy identifiers (a list without repetition). Then the
  to-create list that \<open>Create\<close> and \<open>Update\<close> emit holds exactly one instruction
  \<open>{policy: id}\<close> for each \<open>id\<close> of \<open>D\<close> that is the policy of no observed record, the
  to-delete list holds exactly the identifiers of the observed records whose policy is
  not in \<open>D\<close>, and nothing else is written: the read adds its GET to the log, the only
  request after it is the one PATCH that carries these two lists, and there is none when
  both are empty.
\<close>

theorem reconciler_diff_minimality:
  fixes D :: "string list" and obs :: "accessRecordResponse list"
  defines "toCreate \<equiv> map (\<lambda>pid. JObject [(''policy'', JString pid)])
                          (filter (\<lambda>pid. pid \<in> set D - Policy ` set obs) D)"
    and "toDelete \<equiv> map ID (filter (\<lambda>rec. Policy rec \<in> Policy ` set obs - set D) obs)"
  assumes "distinct D"
    and "PolicyIDs plan = SetValue (map StringValue D)"
    and "readRolePolicies L c (ValueString (RoleID plan)) w = (w1, Inr obs)"
  shows "distinct toCreate
       \<and> set toCreate = (\<lambda>pid. JObject [(''policy'', JString pid)]) ` (set D - Policy ` set obs)
       \<and> fst (RolePoliciesAttachmentResource_Create L c plan w) =
             w1 @ (if toCreate = [] \<and> toDelete = [] then []
                   else [\<lparr>req_method = MethodPatch,
                          req_url = BaseURL c @ ''/roles/'' @ ValueString (RoleID plan),
                          req_header = [(''Content-Type'', ''application/json''),
                                        (''Authorization'', ''Bearer '' @ Token c)],
                          req_body = Some (JObject [(''policies'',
                            JObject ((if toCreate = [] then [] else [(''create'', JArray toCreate)]) @
                                     (if toDelete = [] then []
                                      else [(''delete'', JArray (map JString toDelete))])))])\<rparr>])
       \<and> fst (RolePoliciesAttachmentResource_Update L c plan w) =
             fst (RolePoliciesAttachmentResource_Create L c plan w)
       \<and> w1 = w @ [\<lparr>req_method = MethodGet,
              req_url = BaseURL c @ ''/roles/'' @ ValueString (RoleID plan) @ ''?'' @
                        Values_Encode L [(''fields'', ''id,policies.id,policies.policy'')],
              req_header = [(''Content-Type'', ''application/json''),
                            (''Authorization'', ''Bearer '' @ Token c)],
              req_body = None\<rparr>]"
proof -
  have el: "ElementsAs (PolicyIDs plan) = Some D"
    using assms(4) by (simp only: ElementsAs_values)
  have ident: "ValueString (RoleID plan) \<noteq> []"
    using assms(5) by (rule readRolePolicies_ok_ident)
  have purl: "url_Parse L (BaseURL c @ ''/roles/'' @ ValueString (RoleID plan)) = None"
    using assms(5) by (rule readRolePolicies_ok(2))
  have tc: "toCreate_of (existingMap_of obs) D = toCreate"
    unfolding toCreate_of_existingMap toCreate_def
    by (rule arg_cong [where f = "map _"], rule filter_cong) auto
  have td: "toDelete_of (desiredSet_of D) obs = toDelete"
    unfolding toDelete_of_desiredSet toDelete_def
    by (rule arg_cong [where f = "map ID"], rule filter_cong) auto
  have d: "distinct toCreate"
    unfolding toCreate_def using assms(3) by (rule distinct_toCreate)
  have s: "set toCreate = (\<lambda>pid. JObject [(''policy'', JString pid)]) ` (set D - Policy ` set obs)"
    unfolding toCreate_def by auto
  have cr: "fst (RolePoliciesAttachmentResource_Create L c plan w) =
             w1 @ (if toCreate = [] \<and> toDelete = [] then []
                   else [\<lparr>req_method = MethodPatch,
                          req_url = BaseURL c @ ''/roles/'' @ ValueString (RoleID plan),
                          req_header = [(''Content-Type'', ''application/json''),
                                        (''Authorization'', ''Bearer '' @ Token c)],
                          req_body = Some (JObject [(''policies'',
                            JObject ((if toCreate = [] then [] else [(''create'', JArray toCreate)]) @
                                     (if toDelete = [] then []
                                      else [(''delete'', JArray (map JString toDelete))])))])\<rparr>])"
    by (simp only: Create_log [OF el assms(5)] Let_def tc td Client_Update_roles_log [OF ident purl]
          patchBody_of_literal) simp
  have up: "fst (RolePoliciesAttachmentResource_Update L c plan w) =
             fst (RolePoliciesAttachmentResource_Create L c plan w)"
    by (simp only: Create_log [OF el assms(5)] Update_log [OF el assms(5)])
  have rd: "w1 = w @ [\<lparr>req_method = MethodGet,
              req_url = BaseURL c @ ''/roles/'' @ ValueString (RoleID plan) @ ''?'' @
                        Values_Encode L [(''fields'', ''id,policies.id,policies.policy'')],
              req_header = [(''Content-Type'', ''application/json''),
                            (''Authorization'', ''Bearer '' @ Token c)],
              req_body = None\<rparr>]"
    using readRolePolicies_ok(1) [OF assms(5)] .
  from d s cr up rd show ?thesis by blast
qed

theorem reconciler_diff_minimality_witness:
  "distinct [''policy-bbb'', ''policy-ccc'']
   \<and> fst (RolePoliciesAttachmentResource_Update
        (mock_stdlib [\<lparr>ID = ''access-1'', Policy = ''policy-aaa''\<rparr>,
                      \<lparr>ID = ''access-2'', Policy = ''policy-bbb''\<rparr>])
        (mock_Client (mockJSONResponse 200 ''{}''))
        \<lparr>att_ID = StringUnknown, RoleID = StringValue ''role-uuid'',
         PolicyIDs = SetValue [StringValue ''policy-bbb'', StringValue ''policy-ccc'']\<rparr> [])
     = [\<lparr>req_method = MethodGet,
         req_url = ''http://directus.test/roles/role-uuid?fields=id%2Cpolicies.id%2Cpolicies.policy'',
         req_header = [(''Content-Type'', ''application/json''),
                       (''Authorization'', ''Bearer test-token'')],
         req_body = None\<rparr>,
        \<lparr>req_method = MethodPatch,
         req_url = ''http://directus.test/roles/role-uuid'',
         req_header = [(''Content-Type'', ''application/json''),
                       (''Authorization'', ''Bearer test-token'')],
         req_body = Some (JObject [(''policies'',
            JObject [(''create'', JArray [JObject [(''policy'', JString ''policy-ccc'')]]),
                     (''delete'', JArray [JString ''access-1''])])])\<rparr>]"
proof -
  let ?recs = "[\<lparr>ID = ''access-1'', Policy = ''policy-aaa''\<rparr>,
                \<lparr>ID = ''access-2'', Policy = ''policy-bbb''\<rparr>]"
  let ?plan = "\<lparr>att_ID = StringUnknown, RoleID = StringValue ''role-uuid'',
         PolicyIDs = SetValue [StringValue ''policy-bbb'', StringValue ''policy-ccc'']\<rparr>"
  have d: "distinct [''policy-bbb'', ''policy-ccc'']" by simp
  have p: "PolicyIDs ?plan = SetValue (map StringValue [''policy-bbb'', ''policy-ccc''])" by simp
  have r: "readRolePolicies (mock_stdlib ?recs) (mock_Client (mockJSONResponse 200 ''{}''))
             (ValueString (RoleID ?plan)) [] =
     ([\<lparr>req_method = MethodGet,
        req_url = ''http://directus.test/roles/role-uuid?fields=id%2Cpolicies.id%2Cpolicies.policy'',
        req_header = [(''Content-Type'', ''application/json''),
                      (''Authorization'', ''Bearer test-token'')],
        req_body = None\<rparr>], Inr ?recs)"
    by (simp add: mock_read)
  show ?thesis
    using d reconciler_diff_minimality [OF d p r]
    by (simp add: mock_Client_def)
qed

subsection \<open>No request when the sets are equal\<close>

text \<open>
  C2. Let the read of the role succeed with the records \<open>obs\<close>. If the desired policy
  identifiers and the observed policy identifiers are equal as sets, \<open>Create\<close> and
  \<open>Update\<close> end with the log of the read and report success; \<open>Delete\<close> does so when
  nothing is observed. The read adds the one GET to the log, so no PATCH is sent.
\<close>

theorem noop_on_equality:
  assumes "readRolePolicies L c (ValueString (RoleID plan)) w = (w1, Inr obs)"
  shows "(ElementsAs (PolicyIDs plan) = Some ds \<and> set ds = Policy ` set obs \<longrightarrow>
            RolePoliciesAttachmentResource_Create L c plan w =
              (w1, \<lparr>diagnostics = [],
                    state = Some (plan\<lparr>att_ID := StringValue (ValueString (RoleID plan))\<rparr>)\<rparr>)
          \<and> RolePoliciesAttachmentResource_Update L c plan w =
              (w1, \<lparr>diagnostics = [],
                    state = Some (plan\<lparr>att_ID := StringValue (ValueString (RoleID plan))\<rparr>)\<rparr>))
       \<and> (obs = [] \<longrightarrow>
            RolePoliciesAttachmentResource_Delete L c plan w = (w1, \<lparr>diagnostics = [], state = None\<rparr>))
       \<and> w1 = w @ [\<lparr>req_method = MethodGet,
              req_url = BaseURL c @ ''/roles/'' @ ValueString (RoleID plan) @ ''?'' @
                        Values_Encode L [(''fields'', ''id,policies.id,policies.policy'')],
              req_header = [(''Content-Type'', ''application/json''),
                            (''Authorization'', ''Bearer '' @ Token c)],
              req_body = None\<rparr>]"
proof -
  have ident: "ValueString (RoleID plan) \<noteq> []"
    using assms by (rule readRolePolicies_ok_ident)
  have del: "obs = [] \<longrightarrow>
      RolePoliciesAttachmentResource_Delete L c plan w = (w1, \<lparr>diagnostics = [], state = None\<rparr>)"
    using assms by (simp add: RolePoliciesAttachmentResource_Delete_def)
  show ?thesis
    using Create_noop [OF _ assms] Update_noop [OF _ assms] del
      readRolePolicies_ok(1) [OF assms]
    by blast
qed

theorem noop_on_equality_witness:
  "RolePoliciesAttachmentResource_Update
        (mock_stdlib [\<lparr>ID = ''access-1'', Policy = ''policy-aaa''\<rparr>,
                      \<lparr>ID = ''access-2'', Policy = ''policy-bbb''\<rparr>])
        (mock_Client (mockJSONResponse 200 ''{}''))
        \<lparr>att_ID = StringUnknown, RoleID = StringValue ''role-uuid'',
         PolicyIDs = SetValue [StringValue ''policy-bbb'', StringValue ''policy-aaa'']\<rparr> []
     = ([\<lparr>req_method = MethodGet,
         req_url = ''http://directus.test/roles/role-uuid?fields=id%2Cpolicies.id%2Cpolicies.policy'',
         req_header = [(''Content-Type'', ''application/json''),
                       (''Authorization'', ''Bearer test-token'')],
         req_body = None\<rparr>],
        \<lparr>diagnostics = [],
         state = Some \<lparr>att_ID = StringValue ''role-uuid'', RoleID = StringValue ''role-uuid'',
           PolicyIDs = SetValue [StringValue ''policy-bbb'', StringValue ''policy-aaa'']\<rparr>\<rparr>)
   \<and> RolePoliciesAttachmentResource_Delete (mock_stdlib []) (mock_Client (mockJSONResponse 200 ''{}''))
        \<lparr>att_ID = StringValue ''role-uuid'', RoleID = StringValue ''role-uuid'',
         PolicyIDs = SetValue []\<rparr> []
     = ([\<lparr>req_method = MethodGet,
         req_url = ''http://directus.test/roles/role-uuid?fields=id%2Cpolicies.id%2Cpolicies.policy'',
         req_header = [(''Content-Type'', ''application/json''),
                       (''Authorization'', ''Bearer test-token'')],
         req_body = None\<rparr>],
        \<lparr>diagnostics = [], state = None\<rparr>)"
proof -
  let ?recs = "[\<lparr>ID = ''access-1'', Policy = ''policy-aaa''\<rparr>,
                \<lparr>ID = ''access-2'', Policy = ''policy-bbb''\<rparr>]"
  let ?plan = "\<lparr>att_ID = StringUnknown, RoleID = StringValue ''role-uuid'',
         PolicyIDs = SetValue [StringValue ''policy-bbb'', StringValue ''policy-aaa'']\<rparr>"
  let ?st = "\<lparr>att_ID = StringValue ''role-uuid'', RoleID = StringValue ''role-uuid'',
         PolicyIDs = SetValue []\<rparr>"
  let ?get = "\<lparr>req_method = MethodGet,
        req_url = ''http://directus.test/roles/role-uuid?fields=id%2Cpolicies.id%2Cpolicies.policy'',
        req_header = [(''Content-Type'', ''application/json''),
                      (''Authorization'', ''Bearer test-token'')],
        req_body = None\<rparr>"
  have r1: "readRolePolicies (mock_stdlib ?recs) (mock_Client (mockJSONResponse 200 ''{}''))
             (ValueString (RoleID ?plan)) [] = ([?get], Inr ?recs)"
    by (simp add: mock_read)
  have r2: "readRolePolicies (mock_stdlib []) (mock_Client (mockJSONResponse 200 ''{}''))
             (ValueString (RoleID ?st)) [] = ([?get], Inr [])"
    by (simp add: mock_read)
  have e: "ElementsAs (PolicyIDs ?plan) = Some [''policy-bbb'', ''policy-aaa'']" by simp
  have s: "set [''policy-bbb'', ''policy-aaa''] = Policy ` set ?recs" by auto
  have u: "RolePoliciesAttachmentResource_Update (mock_stdlib ?recs)
             (mock_Client (mockJSONResponse 200 ''{}'')) ?plan [] =
           ([?get], \<lparr>diagnostics = [],
              state = Some (?plan\<lparr>att_ID := StringValue (ValueString (RoleID ?plan))\<rparr>)\<rparr>)"
    using noop_on_equality [OF r1, of "[''policy-bbb'', ''policy-aaa'']"] e s by blast
  have d: "RolePoliciesAttachmentResource_Delete (mock_stdlib [])
             (mock_Client (mockJSONResponse 200 ''{}'')) ?st [] =
           ([?get], \<lparr>diagnostics = [], state = None\<rparr>)"
    using noop_on_equality [OF r2] by blast
  show ?thesis
    using u d by simp
qed

subsection \<open>The shape of the batched write\<close>

text \<open>
  C3. Let the read succeed with \<open>obs\<close> (it adds its GET to the log), and let
  \<open>toCreate\<close> and \<open>toDelete\<close> be the lists that the loops compute for the desired
  identifiers \<open>ds\<close>. When one of them is not empty, \<open>Create\<close> and \<open>Update\<close> add to
  the log of the read exactly one request: a PATCH
  to \<open>/roles/{roleID}\<close> with the body \<open>{policies: policiesOp}\<close>, in which the key
  \<open>create\<close> is present exactly when \<open>toCreate\<close> is not empty, the key \<open>delete\<close> exactly
  when \<open>toDelete\<close> is not empty, and no other key is. \<open>Delete\<close> with a non-empty
  observed list adds exactly one PATCH to the same path, whose \<open>policies\<close> object has the
  key \<open>delete\<close> only, with every observed record identifier.
\<close>

theorem batched_write_shape:
  fixes ds :: "string list" and obs :: "accessRecordResponse list"
  defines "toCreate \<equiv> toCreate_of (existingMap_of obs) ds"
    and "toDelete \<equiv> toDelete_of (desiredSet_of ds) obs"
  defines "policiesOp \<equiv> (if toCreate = [] then [] else [(''create'', JArray toCreate)]) @
                          (if toDelete = [] then [] else [(''delete'', JArray (map JString toDelete))])"
  assumes "readRolePolicies L c (ValueString (RoleID plan)) w = (w1, Inr obs)"
    and "ElementsAs (PolicyIDs plan) = Some ds"
  shows "(toCreate \<noteq> [] \<or> toDelete \<noteq> [] \<longrightarrow>
            fst (RolePoliciesAttachmentResource_Create L c plan w) =
              w1 @ [\<lparr>req_method = MethodPatch,
                      req_url = BaseURL c @ ''/roles/'' @ ValueString (RoleID plan),
                      req_header = [(''Content-Type'', ''application/json''),
                                    (''Authorization'', ''Bearer '' @ Token c)],
                      req_body = Some (JObject [(''policies'', JObject policiesOp)])\<rparr>]
          \<and> fst (RolePoliciesAttachmentResource_Update L c plan w) =
              w1 @ [\<lparr>req_method = MethodPatch,
                      req_url = BaseURL c @ ''/roles/'' @ ValueString (RoleID plan),
                      req_header = [(''Content-Type'', ''application/json''),
                                    (''Authorization'', ''Bearer '' @ Token c)],
                      req_body = Some (JObject [(''policies'', JObject policiesOp)])\<rparr>])
       \<and> (map_of policiesOp ''create'' = (if toCreate \<noteq> [] then Some (JArray toCreate) else None))
       \<and> (map_of policiesOp ''delete'' =
            (if toDelete \<noteq> [] then Some (JArray (map JString toDelete)) else None))
       \<and> dom (map_of policiesOp) \<subseteq> {''create'', ''delete''}
       \<and> (obs \<noteq> [] \<longrightarrow>
            fst (RolePoliciesAttachmentResource_Delete L c plan w) =
              w1 @ [\<lparr>req_method = MethodPatch,
                      req_url = BaseURL c @ ''/roles/'' @ ValueString (RoleID plan),
                      req_header = [(''Content-Type'', ''application/json''),
                                    (''Authorization'', ''Bearer '' @ Token c)],
                      req_body = Some (JObject [(''policies'',
                         JObject [(''delete'', JArray (map JString (map ID obs)))])])\<rparr>])
       \<and> w1 = w @ [\<lparr>req_method = MethodGet,
              req_url = BaseURL c @ ''/roles/'' @ ValueString (RoleID plan) @ ''?'' @
                        Values_Encode L [(''fields'', ''id,policies.id,policies.policy'')],
              req_header = [(''Content-Type'', ''application/json''),
                            (''Authorization'', ''Bearer '' @ Token c)],
              req_body = None\<rparr>]"
proof -
  have ident: "ValueString (RoleID plan) \<noteq> []"
    using assms(4) by (rule readRolePolicies_ok_ident)
  have purl: "url_Parse L (BaseURL c @ ''/roles/'' @ ValueString (RoleID plan)) = None"
    using assms(4) by (rule readRolePolicies_ok(2))
  have cr: "toCreate \<noteq> [] \<or> toDelete \<noteq> [] \<longrightarrow>
            fst (RolePoliciesAttachmentResource_Create L c plan w) =
              w1 @ [\<lparr>req_method = MethodPatch,
                      req_url = BaseURL c @ ''/roles/'' @ ValueString (RoleID plan),
                      req_header = [(''Content-Type'', ''application/json''),
                                    (''Authorization'', ''Bearer '' @ Token c)],
                      req_body = Some (JObject [(''policies'', JObject policiesOp)])\<rparr>]"
    unfolding toCreate_def toDelete_def policiesOp_def
    by (simp only: Create_log [OF assms(5,4)] Let_def Client_Update_roles_log [OF ident purl]
          patchBody_of_literal) simp
  have up: "toCreate \<noteq> [] \<or> toDelete \<noteq> [] \<longrightarrow>
            fst (RolePoliciesAttachmentResource_Update L c plan w) =
              w1 @ [\<lparr>req_method = MethodPatch,
                      req_url = BaseURL c @ ''/roles/'' @ ValueString (RoleID plan),
                      req_header = [(''Content-Type'', ''application/json''),
                                    (''Authorization'', ''Bearer '' @ Token c)],
                      req_body = Some (JObject [(''policies'', JObject policiesOp)])\<rparr>]"
    unfolding toCreate_def toDelete_def policiesOp_def
    by (simp only: Update_log [OF assms(5,4)] Let_def Client_Update_roles_log [OF ident purl]
          patchBody_of_literal) simp
  have k1: "map_of policiesOp ''create'' = (if toCreate \<noteq> [] then Some (JArray toCreate) else None)"
    unfolding policiesOp_def by simp
  have k2: "map_of policiesOp ''delete'' =
            (if toDelete \<noteq> [] then Some (JArray (map JString toDelete)) else None)"
    unfolding policiesOp_def by simp
  have k3: "dom (map_of policiesOp) \<subseteq> {''create'', ''delete''}"
    unfolding policiesOp_def by (auto split: if_splits)
  have del: "obs \<noteq> [] \<longrightarrow>
            fst (RolePoliciesAttachmentResource_Delete L c plan w) =
              w1 @ [\<lparr>req_method = MethodPatch,
                      req_url = BaseURL c @ ''/roles/'' @ ValueString (RoleID plan),
                      req_header = [(''Content-Type'', ''application/json''),
                                    (''Authorization'', ''Bearer '' @ Token c)],
                      req_body = Some (JObject [(''policies'',
                         JObject [(''delete'', JArray (map JString (map ID obs)))])])\<rparr>]"
    by (simp add: Delete_log [OF assms(4)] Client_Update_roles_log [OF ident purl])
  have rd: "w1 = w @ [\<lparr>req_method = MethodGet,
              req_url = BaseURL c @ ''/roles/'' @ ValueString (RoleID plan) @ ''?'' @
                        Values_Encode L [(''fields'', ''id,policies.id,policies.policy'')],
              req_header = [(''Content-Type'', ''application/json''),
                            (''Authorization'', ''Bearer '' @ Token c)],
              req_body = None\<rparr>]"
    using readRolePolicies_ok(1) [OF assms(4)] .
  from cr up k1 k2 k3 del rd show ?thesis by blast
qed

theorem batched_write_shape_witness:
  "fst (RolePoliciesAttachmentResource_Create
        (mock_stdlib [\<lparr>ID = ''r1'', Policy = ''p1''\<rparr>, \<lparr>ID = ''r2'', Policy = ''p2''\<rparr>])
        (mock_Client (mockJSONResponse 200 ''{}''))
        \<lparr>att_ID = StringUnknown, RoleID = StringValue ''role-uuid'',
         PolicyIDs = SetValue [StringValue ''p3'', StringValue ''p4'']\<rparr> [])
     = [\<lparr>req_method = MethodGet,
         req_url = ''http://directus.test/roles/role-uuid?fields=id%2Cpolicies.id%2Cpolicies.policy'',
         req_header = [(''Content-Type'', ''application/json''),
                       (''Authorization'', ''Bearer test-token'')],
         req_body = None\<rparr>,
        \<lparr>req_method = MethodPatch,
         req_url = ''http://directus.test/roles/role-uuid'',
         req_header = [(''Content-Type'', ''application/json''),
                       (''Authorization'', ''Bearer test-token'')],
         req_body = Some (JObject [(''policies'',
            JObject [(''create'', JArray [JObject [(''policy'', JString ''p3'')],
                                          JObject [(''policy'', JString ''p4'')]]),
                     (''delete'', JArray [JString ''r1'', JString ''r2''])])])\<rparr>]
   \<and> fst (RolePoliciesAttachmentResource_Delete
        (mock_stdlib [\<lparr>ID = ''r1'', Policy = ''p1''\<rparr>, \<lparr>ID = ''r2'', Policy = ''p2''\<rparr>])
        (mock_Client (mockJSONResponse 200 ''{}''))
        \<lparr>att_ID = StringUnknown, RoleID = StringValue ''role-uuid'',
         PolicyIDs = SetValue [StringValue ''p3'', StringValue ''p4'']\<rparr> [])
     = [\<lparr>req_method = MethodGet,
         req_url = ''http://directus.test/roles/role-uuid?fields=id%2Cpolicies.id%2Cpolicies.policy'',
         req_header = [(''Content-Type'', ''application/json''),
                       (''Authorization'', ''Bearer test-token'')],
         req_body = None\<rparr>,
        \<lparr>req_method = MethodPatch,
         req_url = ''http://directus.test/roles/role-uuid'',
         req_header = [(''Content-Type'', ''application/json''),
                       (''Authorization'', ''Bearer test-token'')],
         req_body = Some (JObject [(''policies'',
            JObject [(''delete'', JArray [JString ''r1'', JString ''r2''])])])\<rparr>]"
proof -
  let ?recs = "[\<lparr>ID = ''r1'', Policy = ''p1''\<rparr>, \<lparr>ID = ''r2'', Policy = ''p2''\<rparr>]"
  let ?plan = "\<lparr>att_ID = StringUnknown, RoleID = StringValue ''role-uuid'',
         PolicyIDs = SetValue [StringValue ''p3'', StringValue ''p4'']\<rparr>"
  let ?get = "\<lparr>req_method = MethodGet,
        req_url = ''http://directus.test/roles/role-uuid?fields=id%2Cpolicies.id%2Cpolicies.policy'',
        req_header = [(''Content-Type'', ''application/json''),
                      (''Authorization'', ''Bearer test-token'')],
        req_body = None\<rparr>"
  have r: "readRolePolicies (mock_stdlib ?recs) (mock_Client (mockJSONResponse 200 ''{}''))
             (ValueString (RoleID ?plan)) [] = ([?get], Inr ?recs)"
    by (simp add: mock_read)
  have e: "ElementsAs (PolicyIDs ?plan) = Some [''p3'', ''p4'']" by simp
  have tc: "toCreate_of (existingMap_of ?recs) [''p3'', ''p4''] =
              [JObject [(''policy'', JString ''p3'')], JObject [(''policy'', JString ''p4'')]]"
    by (simp add: toCreate_of_existingMap)
  have td: "toDelete_of (desiredSet_of [''p3'', ''p4'']) ?recs = [''r1'', ''r2'']"
    by (simp add: toDelete_of_desiredSet)
  show ?thesis
    using batched_write_shape [OF r e]
    by (simp add: tc td mock_Client_def)
qed

subsection \<open>A failed read\<close>

text \<open>
  C4. If the read of the relation records fails with \<open>err\<close>, then \<open>Create\<close>, \<open>Update\<close>
  (for a plan whose set converts) and \<open>Delete\<close> return the log as the read left it, with
  the one diagnostic \<open>Error Reading Role Policies\<close> that carries the message of \<open>err\<close>,
  and set no state. The read left the log unchanged or added its GET; when the set of the
  plan does not convert, \<open>Create\<close> and \<open>Update\<close> return before the read. No PATCH is
  sent in any of these cases.
\<close>

theorem read_failure_no_write:
  assumes "readRolePolicies L c (ValueString (RoleID plan)) w = (w1, Inl err)"
  shows "(ElementsAs (PolicyIDs plan) \<noteq> None \<longrightarrow>
            RolePoliciesAttachmentResource_Create L c plan w =
              (w1, \<lparr>diagnostics = [AddError ''Error Reading Role Policies''
                      (''Could not read policies for role '' @ ValueString (RoleID plan) @ '': ''
                       @ Error err)],
                    state = None\<rparr>)
          \<and> RolePoliciesAttachmentResource_Update L c plan w =
              (w1, \<lparr>diagnostics = [AddError ''Error Reading Role Policies''
                      (''Could not read policies for role '' @ ValueString (RoleID plan) @ '': ''
                       @ Error err)],
                    state = None\<rparr>))
       \<and> (ElementsAs (PolicyIDs plan) = None \<longrightarrow>
            fst (RolePoliciesAttachmentResource_Create L c plan w) = w
          \<and> fst (RolePoliciesAttachmentResource_Update L c plan w) = w)
       \<and> RolePoliciesAttachmentResource_Delete L c plan w =
              (w1, \<lparr>diagnostics = [AddError ''Error Reading Role Policies''
                      (''Could not read policies for role '' @ ValueString (RoleID plan) @ '': ''
                       @ Error err)],
                    state = None\<rparr>)
       \<and> (w1 = w \<or> w1 = w @ [\<lparr>req_method = MethodGet,
              req_url = BaseURL c @ ''/roles/'' @ ValueString (RoleID plan) @ ''?'' @
                        Values_Encode L [(''fields'', ''id,policies.id,policies.policy'')],
              req_header = [(''Content-Type'', ''application/json''),
                            (''Authorization'', ''Bearer '' @ Token c)],
              req_body = None\<rparr>])"
proof -
  have cr: "ElementsAs (PolicyIDs plan) \<noteq> None \<longrightarrow>
            RolePoliciesAttachmentResource_Create L c plan w =
              (w1, \<lparr>diagnostics = [AddError ''Error Reading Role Policies''
                      (''Could not read policies for role '' @ ValueString (RoleID plan) @ '': ''
                       @ Error err)],
                    state = None\<rparr>)"
    using assms by (auto simp: RolePoliciesAttachmentResource_Create_def)
  have up: "ElementsAs (PolicyIDs plan) \<noteq> None \<longrightarrow>
            RolePoliciesAttachmentResource_Update L c plan w =
              (w1, \<lparr>diagnostics = [AddError ''Error Reading Role Policies''
                      (''Could not read policies for role '' @ ValueString (RoleID plan) @ '': ''
                       @ Error err)],
                    state = None\<rparr>)"
    using assms by (auto simp: RolePoliciesAttachmentResource_Update_def)
  have nc: "ElementsAs (PolicyIDs plan) = None \<longrightarrow>
            fst (RolePoliciesAttachmentResource_Create L c plan w) = w
          \<and> fst (RolePoliciesAttachmentResource_Update L c plan w) = w"
    by (simp add: RolePoliciesAttachmentResource_Create_def RolePoliciesAttachmentResource_Update_def)
  have del: "RolePoliciesAttachmentResource_Delete L c plan w =
              (w1, \<lparr>diagnostics = [AddError ''Error Reading Role Policies''
                      (''Could not read policies for role '' @ ValueString (RoleID plan) @ '': ''
                       @ Error err)],
                    state = None\<rparr>)"
    using assms by (simp add: RolePoliciesAttachmentResource_Delete_def)
  show ?thesis
    using cr up nc del readRolePolicies_requests [OF assms] by blast
qed

theorem read_failure_no_write_witness:
  "RolePoliciesAttachmentResource_Create (mock_stdlib [])
        (mock_Client (Inl (Err ''connection refused'')))
        \<lparr>att_ID = StringUnknown, RoleID = StringValue ''role-uuid'',
         PolicyIDs = SetValue [StringValue ''policy-aaa'']\<rparr> []
     = ([\<lparr>req_method = MethodGet,
         req_url = ''http://directus.test/roles/role-uuid?fields=id%2Cpolicies.id%2Cpolicies.policy'',
         req_header = [(''Content-Type'', ''application/json''),
                       (''Authorization'', ''Bearer test-token'')],
         req_body = None\<rparr>],
        \<lparr>diagnostics = [AddError ''Error Reading Role Policies''
           ''Could not read policies for role role-uuid: failed to send request: connection refused''],
         state = None\<rparr>)"
proof -
  let ?plan = "\<lparr>att_ID = StringUnknown, RoleID = StringValue ''role-uuid'',
         PolicyIDs = SetValue [StringValue ''policy-aaa'']\<rparr>"
  have r: "readRolePolicies (mock_stdlib [])
             (mock_Client (Inl (Err ''connection refused'')))
             (ValueString (RoleID ?plan)) [] =
     ([\<lparr>req_method = MethodGet,
        req_url = ''http://directus.test/roles/role-uuid?fields=id%2Cpolicies.id%2Cpolicies.policy'',
        req_header = [(''Content-Type'', ''application/json''),
                      (''Authorization'', ''Bearer test-token'')],
        req_body = None\<rparr>], Inl (Err ''failed to send request: connection refused''))"
    by (simp add: mock_read_refused)
  show ?thesis
    using read_failure_no_write [OF r] by simp
qed

section \<open>Validation in the client\<close>

text \<open>
  C9. Every operation of the client checks its required parameters before it builds a
  request. With an empty collection name each of \<open>Get\<close>, \<open>GetWithParams\<close>, \<open>List\<close>,
  \<open>Create\<close>, \<open>Update\<close> and \<open>Delete\<close> returns the error \<open>collection is required\<close>; with an
  empty identifier \<open>Get\<close>, \<open>GetWithParams\<close>, \<open>Update\<close> and \<open>Delete\<close> return
  \<open>id is required\<close>; with nil data \<open>Create\<close> and \<open>Update\<close> return \<open>data is required\<close>.
  In each case the log of requests is returned as it was given: no request is issued.
\<close>

theorem client_validation_before_network:
  "(collection = [] \<longrightarrow>
        Client_Get L c collection ident rg w = (w, Inl (Err ''collection is required''))
      \<and> Client_GetWithParams L c collection ident params rp w = (w, Inl (Err ''collection is required''))
      \<and> Client_List L c collection rl w = (w, Inl (Err ''collection is required''))
      \<and> Client_Create L c collection data rc w = (w, Inl (Err ''collection is required''))
      \<and> Client_Update L c collection ident data ru w = (w, Inl (Err ''collection is required''))
      \<and> Client_Delete L c collection ident w = (w, Inl (Err ''collection is required'')))
   \<and> (collection \<noteq> [] \<and> ident = [] \<longrightarrow>
        Client_Get L c collection ident rg w = (w, Inl (Err ''id is required''))
      \<and> Client_GetWithParams L c collection ident params rp w = (w, Inl (Err ''id is required''))
      \<and> Client_Update L c collection ident data ru w = (w, Inl (Err ''id is required''))
      \<and> Client_Delete L c collection ident w = (w, Inl (Err ''id is required'')))
   \<and> (collection \<noteq> [] \<and> data = None \<longrightarrow>
        Client_Create L c collection data rc w = (w, Inl (Err ''data is required'')))
   \<and> (collection \<noteq> [] \<and> ident \<noteq> [] \<and> data = None \<longrightarrow>
        Client_Update L c collection ident data ru w = (w, Inl (Err ''data is required'')))"
  by (simp add: Client_Get_def Client_GetWithParams_def Client_List_def Client_Create_def
        Client_Update_def Client_Delete_def)

theorem client_validation_before_network_witness:
  "Client_List (mock_stdlib []) (mock_Client (mockJSONResponse 200 ''{}'')) []
      (Decode_policy (mock_stdlib [])) [] = ([], Inl (Err ''collection is required''))
   \<and> Client_Delete (mock_stdlib []) (mock_Client (mockJSONResponse 200 ''{}'')) ''policies'' [] []
      = ([], Inl (Err ''id is required''))
   \<and> Client_Update (mock_stdlib []) (mock_Client (mockJSONResponse 200 ''{}'')) ''policies'' ''p1'' None
      (Some (Decode_policy (mock_stdlib []))) [] = ([], Inl (Err ''data is required''))
   \<and> Client_Create (mock_stdlib []) (mock_Client (mockJSONResponse 200 ''{}'')) ''policies'' None
      (Some (Decode_policy (mock_stdlib []))) [] = ([], Inl (Err ''data is required''))"
proof -
  let ?L = "mock_stdlib []"
  let ?c = "mock_Client (mockJSONResponse 200 ''{}'')"
  let ?d = "Decode_policy (mock_stdlib [])"
  note v = client_validation_before_network [where L = ?L and c = ?c and w = "[]"
             and rg = ?d and rp = ?d and rl = ?d and rc = "Some ?d" and ru = "Some ?d"
             and params = "[]" and data = None]
  show ?thesis
    using v [where collection = "[]" and ident = "[]"]
          v [where collection = "''policies''" and ident = "[]"]
          v [where collection = "''policies''" and ident = "''p1''"]
    by simp
qed

section \<open>The payload of a role\<close>

text \<open>
  C5, as the claim states it, fails for the create payload: a role whose parent is null
  is created with a payload that has no \<open>parent\<close> key.
\<close>

theorem buildRoleInput_create_null_parent_counterexample:
  "map_of (buildRoleInput
      \<lparr>role_ID = StringUnknown, role_Name = StringValue ''Test Role'', role_Icon = StringNull,
       role_Description = StringNull, role_Parent = StringNull,
       role_Children = ListUnknown, role_Users = ListUnknown\<rparr> True) ''parent'' \<noteq> Some JNull
   \<and> buildRoleInput
      \<lparr>role_ID = StringUnknown, role_Name = StringValue ''Test Role'', role_Icon = StringNull,
       role_Description = StringNull, role_Parent = StringNull,
       role_Children = ListUnknown, role_Users = ListUnknown\<rparr> True
     = [(''name'', JString ''Test Role'')]"
  by (simp add: buildRoleInput_def setStringField_def)

text \<open>
  C5, amended. In the update payload (\<open>isCreate\<close> false) a null parent gives the key
  \<open>parent\<close> with an explicit JSON null, an unknown parent gives no key, and a set parent
  gives the key with that string. In the create payload the key \<open>parent\<close> is present only
  for a set parent. In both payloads \<open>icon\<close> and \<open>description\<close> are present exactly
  when they are set, with their value; \<open>name\<close> likewise on update, and always on create;
  there is no other key.
\<close>

theorem buildRoleInput_payload:
  "map_of (buildRoleInput data False) ''parent'' =
      (case role_Parent data of
         StringNull \<Rightarrow> Some JNull | StringUnknown \<Rightarrow> None | StringValue s \<Rightarrow> Some (JString s))
   \<and> map_of (buildRoleInput data True) ''parent'' =
      (case role_Parent data of
         StringNull \<Rightarrow> None | StringUnknown \<Rightarrow> None | StringValue s \<Rightarrow> Some (JString s))
   \<and> map_of (buildRoleInput data isCreate) ''icon'' =
      (case role_Icon data of
         StringNull \<Rightarrow> None | StringUnknown \<Rightarrow> None | StringValue s \<Rightarrow> Some (JString s))
   \<and> map_of (buildRoleInput data isCreate) ''description'' =
      (case role_Description data of
         StringNull \<Rightarrow> None | StringUnknown \<Rightarrow> None | StringValue s \<Rightarrow> Some (JString s))
   \<and> map_of (buildRoleInput data False) ''name'' =
      (case role_Name data of
         StringNull \<Rightarrow> None | StringUnknown \<Rightarrow> None | StringValue s \<Rightarrow> Some (JString s))
   \<and> map_of (buildRoleInput data True) ''name'' = Some (JString (ValueString (role_Name data)))
   \<and> dom (map_of (buildRoleInput data isCreate)) \<subseteq> {''name'', ''icon'', ''description'', ''parent''}"
proof -
  have p0: "map_of (buildRoleInput data False) ''parent'' =
      (case role_Parent data of
         StringNull \<Rightarrow> Some JNull | StringUnknown \<Rightarrow> None | StringValue s \<Rightarrow> Some (JString s))"
    by (simp add: buildRoleInput_def map_of_setStringField map_of_setNullableStringField
          split: tf_string.splits)
  have p1: "map_of (buildRoleInput data True) ''parent'' =
      (case role_Parent data of
         StringNull \<Rightarrow> None | StringUnknown \<Rightarrow> None | StringValue s \<Rightarrow> Some (JString s))"
    by (simp add: buildRoleInput_def map_of_setStringField map_of_assign split: tf_string.splits)
  have i: "map_of (buildRoleInput data isCreate) ''icon'' =
      (case role_Icon data of
         StringNull \<Rightarrow> None | StringUnknown \<Rightarrow> None | StringValue s \<Rightarrow> Some (JString s))"
    by (simp add: buildRoleInput_def map_of_setStringField map_of_setNullableStringField
          map_of_assign split: tf_string.splits)
  have d: "map_of (buildRoleInput data isCreate) ''description'' =
      (case role_Description data of
         StringNull \<Rightarrow> None | StringUnknown \<Rightarrow> None | StringValue s \<Rightarrow> Some (JString s))"
    by (simp add: buildRoleInput_def map_of_setStringField map_of_setNullableStringField
          map_of_assign split: tf_string.splits)
  have n0: "map_of (buildRoleInput data False) ''name'' =
      (case role_Name data of
         StringNull \<Rightarrow> None | StringUnknown \<Rightarrow> None | StringValue s \<Rightarrow> Some (JString s))"
    by (simp add: buildRoleInput_def map_of_setStringField map_of_setNullableStringField
          split: tf_string.splits)
  have n1: "map_of (buildRoleInput data True) ''name'' = Some (JString (ValueString (role_Name data)))"
    by (simp add: buildRoleInput_def map_of_setStringField map_of_assign)
  have k: "dom (map_of (buildRoleInput data isCreate)) \<subseteq> {''name'', ''icon'', ''description'', ''parent''}"
  proof
    fix x assume "x \<in> dom (map_of (buildRoleInput data isCreate))"
    then have "map_of (buildRoleInput data isCreate) x \<noteq> None" by auto
    then show "x \<in> {''name'', ''icon'', ''description'', ''parent''}"
      by (simp add: buildRoleInput_def map_of_setStringField map_of_setNullableStringField
            map_of_assign split: if_splits)
  qed
  from p0 p1 i d n0 n1 k show ?thesis by blast
qed

theorem buildRoleInput_payload_witness:
  "map_of (buildRoleInput
      \<lparr>role_ID = StringValue ''r1'', role_Name = StringValue ''Updated Role'', role_Icon = StringNull,
       role_Description = StringUnknown, role_Parent = StringNull,
       role_Children = ListNull, role_Users = ListNull\<rparr> False) ''parent'' = Some JNull
   \<and> map_of (buildRoleInput
      \<lparr>role_ID = StringValue ''r1'', role_Name = StringValue ''Updated Role'', role_Icon = StringNull,
       role_Description = StringUnknown, role_Parent = StringNull,
       role_Children = ListNull, role_Users = ListNull\<rparr> True) ''parent'' = None
   \<and> map_of (buildRoleInput
      \<lparr>role_ID = StringValue ''r1'', role_Name = StringValue ''Updated Role'', role_Icon = StringNull,
       role_Description = StringUnknown, role_Parent = StringNull,
       role_Children = ListNull, role_Users = ListNull\<rparr> False) ''icon'' = None"
  using buildRoleInput_payload [where isCreate = False and data =
      "\<lparr>role_ID = StringValue ''r1'', role_Name = StringValue ''Updated Role'', role_Icon = StringNull,
       role_Description = StringUnknown, role_Parent = StringNull,
       role_Children = ListNull, role_Users = ListNull\<rparr>"]
  by simp

section \<open>The payload of a collection\<close>

lemma if_swap: "(if \<not> A then x else y) = (if A then y else x)"
  by simp

lemma collectionMeta_Nil:
  "collectionMeta data = [] \<longleftrightarrow>
     \<not> ((\<exists>s. coll_Icon data = StringValue s) \<or> (\<exists>s. coll_Note data = StringValue s)
        \<or> (\<exists>b. coll_Hidden data = BoolValue b) \<or> (\<exists>b. coll_Singleton data = BoolValue b)
        \<or> (\<exists>s. coll_SortField data = StringValue s) \<or> (\<exists>s. coll_Archive data = StringValue s)
        \<or> (\<exists>s. coll_Color data = StringValue s))"
  unfolding collectionMeta_def Let_def setStringField_Nil setBoolField_Nil
    string_is_set [symmetric] bool_is_set [symmetric]
  by blast

lemma map_of_collectionMeta:
  "map_of (collectionMeta data) k =
     (if k = ''color'' \<and> \<not> IsNull (coll_Color data) \<and> \<not> IsUnknown (coll_Color data)
        then Some (JString (ValueString (coll_Color data)))
      else if k = ''archive_field'' \<and> \<not> IsNull (coll_Archive data) \<and> \<not> IsUnknown (coll_Archive data)
        then Some (JString (ValueString (coll_Archive data)))
      else if k = ''sort_field'' \<and> \<not> IsNull (coll_SortField data) \<and> \<not> IsUnknown (coll_SortField data)
        then Some (JString (ValueString (coll_SortField data)))
      else if k = ''singleton'' \<and> \<not> BoolIsNull (coll_Singleton data) \<and> \<not> BoolIsUnknown (coll_Singleton data)
        then Some (JBool (ValueBool (coll_Singleton data)))
      else if k = ''hidden'' \<and> \<not> BoolIsNull (coll_Hidden data) \<and> \<not> BoolIsUnknown (coll_Hidden data)
        then Some (JBool (ValueBool (coll_Hidden data)))
      else if k = ''note'' \<and> \<not> IsNull (coll_Note data) \<and> \<not> IsUnknown (coll_Note data)
        then Some (JString (ValueString (coll_Note data)))
      else if k = ''icon'' \<and> \<not> IsNull (coll_Icon data) \<and> \<not> IsUnknown (coll_Icon data)
        then Some (JString (ValueString (coll_Icon data)))
      else None)"
  unfolding collectionMeta_def Let_def map_of_setStringField map_of_setBoolField
  by simp

text \<open>
  C8. The create payload of a collection always has the key \<open>collection\<close> with the
  name and the key \<open>schema\<close> with the empty object. In the create and in the update
  payload the key \<open>meta\<close> is present exactly when one of icon, note, hidden, singleton,
  sort_field, archive_field and color is set; its value is the object \<open>collectionMeta\<close>,
  which has each of these seven keys exactly when the field is set, with the field's
  value, and no other key. The update payload has neither the key \<open>collection\<close> nor the
  key \<open>schema\<close>; no payload has a key other than these three.
\<close>

theorem buildCollectionInput_payload:
  "map_of (buildCollectionInput data True) ''collection'' =
      Some (JString (ValueString (coll_Collection data)))
   \<and> map_of (buildCollectionInput data True) ''schema'' = Some (JObject [])
   \<and> map_of (buildCollectionInput data isCreate) ''meta'' =
      (if (\<exists>s. coll_Icon data = StringValue s) \<or> (\<exists>s. coll_Note data = StringValue s)
          \<or> (\<exists>b. coll_Hidden data = BoolValue b) \<or> (\<exists>b. coll_Singleton data = BoolValue b)
          \<or> (\<exists>s. coll_SortField data = StringValue s) \<or> (\<exists>s. coll_Archive data = StringValue s)
          \<or> (\<exists>s. coll_Color data = StringValue s)
       then Some (JObject (collectionMeta data)) else None)
   \<and> map_of (collectionMeta data) ''icon'' =
      (case coll_Icon data of
         StringNull \<Rightarrow> None | StringUnknown \<Rightarrow> None | StringValue s \<Rightarrow> Some (JString s))
   \<and> map_of (collectionMeta data) ''note'' =
      (case coll_Note data of
         StringNull \<Rightarrow> None | StringUnknown \<Rightarrow> None | StringValue s \<Rightarrow> Some (JString s))
   \<and> map_of (collectionMeta data) ''hidden'' =
      (case coll_Hidden data of
         BoolNull \<Rightarrow> None | BoolUnknown \<Rightarrow> None | BoolValue b \<Rightarrow> Some (JBool b))
   \<and> map_of (collectionMeta data) ''singleton'' =
      (case coll_Singleton data of
         BoolNull \<Rightarrow> None | BoolUnknown \<Rightarrow> None | BoolValue b \<Rightarrow> Some (JBool b))
   \<and> map_of (collectionMeta data) ''sort_field'' =
      (case coll_SortField data of
         StringNull \<Rightarrow> None | StringUnknown \<Rightarrow> None | StringValue s \<Rightarrow> Some (JString s))
   \<and> map_of (collectionMeta data) ''archive_field'' =
      (case coll_Archive data of
         StringNull \<Rightarrow> None | StringUnknown \<Rightarrow> None | StringValue s \<Rightarrow> Some (JString s))
   \<and> map_of (collectionMeta data) ''color'' =
      (case coll_Color data of
         StringNull \<Rightarrow> None | StringUnknown \<Rightarrow> None | StringValue s \<Rightarrow> Some (JString s))
   \<and> dom (map_of (collectionMeta data)) \<subseteq>
        {''icon'', ''note'', ''hidden'', ''singleton'', ''sort_field'', ''archive_field'', ''color''}
   \<and> map_of (buildCollectionInput data False) ''collection'' = None
   \<and> map_of (buildCollectionInput data False) ''schema'' = None
   \<and> dom (map_of (buildCollectionInput data isCreate)) \<subseteq> {''collection'', ''schema'', ''meta''}"
proof -
  have c1: "map_of (buildCollectionInput data True) ''collection'' =
      Some (JString (ValueString (coll_Collection data)))"
    by (simp add: buildCollectionInput_def Let_def map_of_assign)
  have c2: "map_of (buildCollectionInput data True) ''schema'' = Some (JObject [])"
    by (simp add: buildCollectionInput_def Let_def map_of_assign)
  have c3: "map_of (buildCollectionInput data isCreate) ''meta'' =
      (if (\<exists>s. coll_Icon data = StringValue s) \<or> (\<exists>s. coll_Note data = StringValue s)
          \<or> (\<exists>b. coll_Hidden data = BoolValue b) \<or> (\<exists>b. coll_Singleton data = BoolValue b)
          \<or> (\<exists>s. coll_SortField data = StringValue s) \<or> (\<exists>s. coll_Archive data = StringValue s)
          \<or> (\<exists>s. coll_Color data = StringValue s)
       then Some (JObject (collectionMeta data)) else None)"
  proof -
    have "map_of (buildCollectionInput data isCreate) ''meta'' =
            (if collectionMeta data = [] then None else Some (JObject (collectionMeta data)))"
      by (simp add: buildCollectionInput_def Let_def map_of_assign)
    also have "\<dots> = (if (\<exists>s. coll_Icon data = StringValue s) \<or> (\<exists>s. coll_Note data = StringValue s)
          \<or> (\<exists>b. coll_Hidden data = BoolValue b) \<or> (\<exists>b. coll_Singleton data = BoolValue b)
          \<or> (\<exists>s. coll_SortField data = StringValue s) \<or> (\<exists>s. coll_Archive data = StringValue s)
          \<or> (\<exists>s. coll_Color data = StringValue s)
       then Some (JObject (collectionMeta data)) else None)"
      by (simp only: collectionMeta_Nil if_swap)
    finally show ?thesis .
  qed
  have m1: "map_of (collectionMeta data) ''icon'' =
      (case coll_Icon data of
         StringNull \<Rightarrow> None | StringUnknown \<Rightarrow> None | StringValue s \<Rightarrow> Some (JString s))"
    by (cases "coll_Icon data") (simp_all add: map_of_collectionMeta)
  have m2: "map_of (collectionMeta data) ''note'' =
      (case coll_Note data of
         StringNull \<Rightarrow> None | StringUnknown \<Rightarrow> None | StringValue s \<Rightarrow> Some (JString s))"
    by (cases "coll_Note data") (simp_all add: map_of_collectionMeta)
  have m3: "map_of (collectionMeta data) ''hidden'' =
      (case coll_Hidden data of
         BoolNull \<Rightarrow> None | BoolUnknown \<Rightarrow> None | BoolValue b \<Rightarrow> Some (JBool b))"
    by (cases "coll_Hidden data") (simp_all add: map_of_collectionMeta)
  have m4: "map_of (collectionMeta data) ''singleton'' =
      (case coll_Singleton data of
         BoolNull \<Rightarrow> None | BoolUnknown \<Rightarrow> None | BoolValue b \<Rightarrow> Some (JBool b))"
    by (cases "coll_Singleton data") (simp_all add: map_of_collectionMeta)
  have m5: "map_of (collectionMeta data) ''sort_field'' =
      (case coll_SortField data of
         StringNull \<Rightarrow> None | StringUnknown \<Rightarrow> None | StringValue s \<Rightarrow> Some (JString s))"
    by (cases "coll_SortField data") (simp_all add: map_of_collectionMeta)
  have m6: "map_of (collectionMeta data) ''archive_field'' =
      (case coll_Archive data of
         StringNull \<Rightarrow> None | StringUnknown \<Rightarrow> None | StringValue s \<Rightarrow> Some (JString s))"
    by (cases "coll_Archive data") (simp_all add: map_of_collectionMeta)
  have m7: "map_of (collectionMeta data) ''color'' =
      (case coll_Color data of
         StringNull \<Rightarrow> None | StringUnknown \<Rightarrow> None | StringValue s \<Rightarrow> Some (JString s))"
    by (cases "coll_Color data") (simp_all add: map_of_collectionMeta)
  have m8: "dom (map_of (collectionMeta data)) \<subseteq>
        {''icon'', ''note'', ''hidden'', ''singleton'', ''sort_field'', ''archive_field'', ''color''}"
  proof
    fix x assume "x \<in> dom (map_of (collectionMeta data))"
    then have some: "map_of (collectionMeta data) x \<noteq> None" by auto
    show "x \<in> {''icon'', ''note'', ''hidden'', ''singleton'', ''sort_field'',
                 ''archive_field'', ''color''}"
    proof (rule ccontr)
      assume "x \<notin> {''icon'', ''note'', ''hidden'', ''singleton'', ''sort_field'',
                 ''archive_field'', ''color''}"
      then have "map_of (collectionMeta data) x = None"
        by (simp add: map_of_collectionMeta)
      with some show False by simp
    qed
  qed
  have u1: "map_of (buildCollectionInput data False) ''collection'' = None"
    by (simp add: buildCollectionInput_def Let_def map_of_assign)
  have u2: "map_of (buildCollectionInput data False) ''schema'' = None"
    by (simp add: buildCollectionInput_def Let_def map_of_assign)
  have k: "dom (map_of (buildCollectionInput data isCreate)) \<subseteq> {''collection'', ''schema'', ''meta''}"
  proof
    fix x assume "x \<in> dom (map_of (buildCollectionInput data isCreate))"
    then have "map_of (buildCollectionInput data isCreate) x \<noteq> None" by auto
    then show "x \<in> {''collection'', ''schema'', ''meta''}"
      by (auto simp: buildCollectionInput_def Let_def map_of_assign split: if_splits)
  qed
  from c1 c2 c3 m1 m2 m3 m4 m5 m6 m7 m8 u1 u2 k show ?thesis by blast
qed

theorem buildCollectionInput_payload_witness:
  "buildCollectionInput
      \<lparr>coll_Collection = StringValue ''articles'', coll_Icon = StringValue ''article'',
       coll_Note = StringNull, coll_Hidden = BoolNull, coll_Singleton = BoolUnknown,
       coll_SortField = StringNull, coll_Archive = StringNull, coll_Color = StringNull\<rparr> True
     = [(''collection'', JString ''articles''), (''schema'', JObject []),
        (''meta'', JObject [(''icon'', JString ''article'')])]
   \<and> map_of (buildCollectionInput
      \<lparr>coll_Collection = StringValue ''articles'', coll_Icon = StringValue ''article'',
       coll_Note = StringNull, coll_Hidden = BoolNull, coll_Singleton = BoolUnknown,
       coll_SortField = StringNull, coll_Archive = StringNull, coll_Color = StringNull\<rparr> True) ''meta''
     = Some (JObject [(''icon'', JString ''article'')])
   \<and> map_of (buildCollectionInput
      \<lparr>coll_Collection = StringValue ''articles'', coll_Icon = StringNull,
       coll_Note = StringNull, coll_Hidden = BoolNull, coll_Singleton = BoolNull,
       coll_SortField = StringNull, coll_Archive = StringNull, coll_Color = StringNull\<rparr> True) ''meta''
     = None"
proof -
  let ?a = "\<lparr>coll_Collection = StringValue ''articles'', coll_Icon = StringValue ''article'',
       coll_Note = StringNull, coll_Hidden = BoolNull, coll_Singleton = BoolUnknown,
       coll_SortField = StringNull, coll_Archive = StringNull, coll_Color = StringNull\<rparr>"
  let ?b = "\<lparr>coll_Collection = StringValue ''articles'', coll_Icon = StringNull,
       coll_Note = StringNull, coll_Hidden = BoolNull, coll_Singleton = BoolNull,
       coll_SortField = StringNull, coll_Archive = StringNull, coll_Color = StringNull\<rparr>"
  have m: "collectionMeta ?a = [(''icon'', JString ''article'')]"
    by (simp add: collectionMeta_def setStringField_def setBoolField_def)
  have e: "buildCollectionInput ?a True =
      [(''collection'', JString ''articles''), (''schema'', JObject []),
        (''meta'', JObject [(''icon'', JString ''article'')])]"
    by (simp add: buildCollectionInput_def m)
  show ?thesis
    using buildCollectionInput_payload [where data = ?a and isCreate = True]
          buildCollectionInput_payload [where data = ?b and isCreate = True]
    by (simp add: m e)
qed

section \<open>The IP allowlist of a policy\<close>

subsection \<open>Splitting, joining and the request bodies\<close>

lemma Split_no_sep: "sep \<notin> set x \<Longrightarrow> Split x sep = [x]"
  by (induction x) auto

lemma Split_append_sep: "sep \<notin> set x \<Longrightarrow> Split (x @ sep # rest) sep = x # Split rest sep"
  by (induction x) auto

lemma Split_Join:
  "\<forall>x\<in>set (x0 # xs). sep \<notin> set x \<Longrightarrow> Split (Join (x0 # xs) [sep]) sep = x0 # xs"
proof (induction xs arbitrary: x0)
  case Nil
  then show ?case by (simp add: Split_no_sep)
next
  case (Cons y ys)
  have "Split (Join (x0 # y # ys) [sep]) sep = Split (x0 @ sep # Join (y # ys) [sep]) sep"
    by simp
  also have "\<dots> = x0 # Split (Join (y # ys) [sep]) sep"
    using Cons.prems by (simp add: Split_append_sep)
  also have "\<dots> = x0 # y # ys"
    using Cons.IH [of y] Cons.prems by simp
  finally show ?case .
qed

lemma Split_not_Nil: "Split s sep \<noteq> []"
  by (induction s) (auto split: list.splits)

lemma Split_no_sep_inside: "seg \<in> set (Split s sep) \<Longrightarrow> sep \<notin> set seg"
  by (induction s arbitrary: seg) (auto split: if_splits list.splits)

lemma Join_Split: "Join (Split s sep) [sep] = s"
proof (induction s)
  case Nil
  then show ?case by simp
next
  case (Cons ch s)
  obtain p ps where sp: "Split s sep = p # ps"
    using Split_not_Nil [of s sep] by (cases "Split s sep") auto
  show ?case
    using Cons.IH by (cases ps) (simp_all add: sp)
qed

lemma TrimSpace_Nil: "TrimSpace [] = []"
  by (simp add: TrimSpace_def spaceLen_def unicodeSpaces_def)

lemma Join_not_Nil: "x0 \<noteq> [] \<Longrightarrow> Join (x0 # xs) sep \<noteq> []"
  by (cases xs) auto

lemma trimmedSegments_Join:
  assumes "xs \<noteq> []" and "\<forall>x\<in>set xs. TrimSpace x = x \<and> x \<noteq> [] \<and> CHR '','' \<notin> set x"
  shows "trimmedSegments (Join xs '','') = xs"
proof -
  obtain x0 rest where xs: "xs = x0 # rest" using assms(1) by (cases xs) auto
  have sp: "Split (Join xs '','') CHR '','' = xs"
    unfolding xs using assms(2) by (intro Split_Join) (simp add: xs)
  have "map TrimSpace xs = xs"
    using assms(2) by (simp add: map_idI)
  moreover have "filter (\<lambda>s. s \<noteq> []) xs = xs"
    using assms(2) by (simp add: filter_id_conv)
  ultimately show ?thesis
    by (simp add: trimmedSegments_def sp)
qed

lemma trimmedSegments_blank:
  "\<forall>p\<in>set (Split csv CHR '',''). TrimSpace p = [] \<Longrightarrow> trimmedSegments csv = []"
  by (simp add: trimmedSegments_def filter_empty_conv)

lemma map_of_setIPAccessField:
  "map_of (setIPAccessField m v) k =
     (if k = ''ip_access'' \<and> \<not> IsNull v \<and> \<not> IsUnknown v \<and> ValueString v \<noteq> []
          \<and> trimmedSegments (ValueString v) \<noteq> []
      then Some (JArray (map JString (trimmedSegments (ValueString v))))
      else map_of m k)"
  by (simp add: setIPAccessField_def Let_def map_of_assign)

lemma policy_toModel_IPAccess:
  "policy_IPAccess (policy_toModel p) =
     (if api_IPAccess p = [] then StringNull else StringValue (Join (api_IPAccess p) '',''))"
  by (simp add: policy_toModel_def)

lemma index_bool_policies: "index_bool systemCollections ''policies''"
  by (simp add: index_bool_systemCollections)

lemma PolicyResource_Update_log:
  "fst (PolicyResource_Update L c plan w) =
           (if ValueString (policy_ID plan) = []
               \<or> url_Parse L (BaseURL c @ ''/policies/'' @ ValueString (policy_ID plan)) \<noteq> None
            then w
            else w @ [\<lparr>req_method = MethodPatch,
                        req_url = BaseURL c @ ''/policies/'' @ ValueString (policy_ID plan),
                        req_header = [(''Content-Type'', ''application/json''),
                                      (''Authorization'', ''Bearer '' @ Token c)],
                        req_body = Some (JObject (policyUpdateBody plan))\<rparr>])"
  by (auto simp: PolicyResource_Update_def Client_Update_def doRequest_def Let_def
        buildCollectionPath_def index_bool_policies split: prod.splits sum.splits option.splits)

lemma PolicyResource_Create_log:
  "fst (PolicyResource_Create L c plan w) =
           (if url_Parse L (BaseURL c @ ''/policies'') \<noteq> None then w
            else w @ [\<lparr>req_method = MethodPost, req_url = BaseURL c @ ''/policies'',
                        req_header = [(''Content-Type'', ''application/json''),
                                      (''Authorization'', ''Bearer '' @ Token c)],
                        req_body = Some (JObject (policyCreateBody plan))\<rparr>])"
  by (auto simp: PolicyResource_Create_def Client_Create_def doRequest_def Let_def
        buildCollectionPath_def index_bool_policies split: prod.splits sum.splits option.splits)

lemma map_of_policyUpdateBody_ip_access:
  "map_of (policyUpdateBody plan) ''ip_access'' = map_of (setIPAccessField [] (policy_IPAccess plan)) ''ip_access''"
  by (simp add: policyUpdateBody_def Let_def map_of_setBoolField map_of_setStringField
        map_of_setIPAccessField)

lemma map_of_policyCreateBody_ip_access:
  "map_of (policyCreateBody plan) ''ip_access'' = map_of (setIPAccessField [] (policy_IPAccess plan)) ''ip_access''"
  by (simp add: policyCreateBody_def Let_def map_of_setBoolField map_of_setStringField
        map_of_setIPAccessField)

subsection \<open>The round trip\<close>

text \<open>
  C7, as the claim states it, fails for the empty array, which is an array of trimmed,
  non-empty, comma-free strings: it is read as a null string, and a null string writes no
  \<open>ip_access\<close> key, so what comes back is not the empty array.
\<close>

theorem ip_access_empty_array_counterexample:
  "map_of (setIPAccessField []
      (policy_IPAccess (policy_toModel (zero_policyAPIResponse\<lparr>api_IPAccess := []\<rparr>)))) ''ip_access''
     \<noteq> Some (JArray (map JString []))
   \<and> setIPAccessField []
      (policy_IPAccess (policy_toModel (zero_policyAPIResponse\<lparr>api_IPAccess := []\<rparr>))) = []"
  by (simp add: policy_toModel_IPAccess setIPAccessField_def)

text \<open>
  C7, amended. The string \<open>10.0.0.0/8, 192.168.1.0/24\<close> is written as the array of
  \<open>10.0.0.0/8\<close> and \<open>192.168.1.0/24\<close>, and that array is read back as the string
  \<open>10.0.0.0/8,192.168.1.0/24\<close>. Reading and then writing is the identity on every
  array that is not empty and whose elements are trimmed, not empty and free of commas:
  the key \<open>ip_access\<close> is assigned that same array. The empty array is read as the null
  string, and writes nothing.

  In general, writing a string \<open>csv\<close> splits it at every comma (the segments hold no
  comma and joined with commas they give \<open>csv\<close> back), trims each segment and drops the
  empty ones; the key \<open>ip_access\<close> is assigned the array of what is left, in order, and
  nothing is assigned when nothing is left, nor for a null or unknown string. Reading
  gives null for the empty array and the elements joined with commas otherwise.
\<close>

theorem ip_access_round_trip:
  "setIPAccessField [] (StringValue ''10.0.0.0/8, 192.168.1.0/24'') =
      [(''ip_access'', JArray [JString ''10.0.0.0/8'', JString ''192.168.1.0/24''])]
   \<and> policy_IPAccess (policy_toModel (p\<lparr>api_IPAccess := [''10.0.0.0/8'', ''192.168.1.0/24'']\<rparr>)) =
      StringValue ''10.0.0.0/8,192.168.1.0/24''
   \<and> (xs \<noteq> [] \<and> (\<forall>x\<in>set xs. TrimSpace x = x \<and> x \<noteq> [] \<and> CHR '','' \<notin> set x) \<longrightarrow>
        setIPAccessField input (policy_IPAccess (policy_toModel (p\<lparr>api_IPAccess := xs\<rparr>))) =
          assign ''ip_access'' (JArray (map JString xs)) input)
   \<and> setIPAccessField input (policy_IPAccess (policy_toModel (p\<lparr>api_IPAccess := []\<rparr>))) = input
   \<and> setIPAccessField input (StringValue csv) =
        (if filter (\<lambda>s. s \<noteq> []) (map TrimSpace (Split csv CHR '','')) = [] then input
         else assign ''ip_access''
                (JArray (map JString (filter (\<lambda>s. s \<noteq> []) (map TrimSpace (Split csv CHR '','')))))
                input)
   \<and> setIPAccessField input StringNull = input
   \<and> setIPAccessField input StringUnknown = input
   \<and> Join (Split csv CHR '','') '','' = csv
   \<and> Split csv CHR '','' \<noteq> []
   \<and> (\<forall>seg\<in>set (Split csv CHR '',''). CHR '','' \<notin> set seg)
   \<and> setIPAccessField [] (StringValue (CHR 0x09 # ''10.0.0.0/8 ,, ,192.168.1.0/24,'')) =
        [(''ip_access'', JArray [JString ''10.0.0.0/8'', JString ''192.168.1.0/24''])]
   \<and> policy_IPAccess (policy_toModel q) =
        (if api_IPAccess q = [] then StringNull else StringValue (Join (api_IPAccess q) '',''))
   \<and> policy_IPAccess (policy_toModel (p\<lparr>api_IPAccess := []\<rparr>)) = StringNull"
proof -
  have t1: "TrimSpace '' 192.168.1.0/24'' = ''192.168.1.0/24''"
    by (simp add: TrimSpace_def spaceLen_def unicodeSpaces_def)
  have t2: "TrimSpace ''10.0.0.0/8'' = ''10.0.0.0/8''"
    by (simp add: TrimSpace_def spaceLen_def unicodeSpaces_def)
  have a: "setIPAccessField [] (StringValue ''10.0.0.0/8, 192.168.1.0/24'') =
      [(''ip_access'', JArray [JString ''10.0.0.0/8'', JString ''192.168.1.0/24''])]"
    by (simp add: setIPAccessField_def trimmedSegments_def t1 t2)
  have b: "policy_IPAccess (policy_toModel (p\<lparr>api_IPAccess := [''10.0.0.0/8'', ''192.168.1.0/24'']\<rparr>)) =
      StringValue ''10.0.0.0/8,192.168.1.0/24''"
    by (simp add: policy_toModel_IPAccess)
  have c: "xs \<noteq> [] \<and> (\<forall>x\<in>set xs. TrimSpace x = x \<and> x \<noteq> [] \<and> CHR '','' \<notin> set x) \<longrightarrow>
        setIPAccessField input (policy_IPAccess (policy_toModel (p\<lparr>api_IPAccess := xs\<rparr>))) =
          assign ''ip_access'' (JArray (map JString xs)) input"
  proof
    assume h: "xs \<noteq> [] \<and> (\<forall>x\<in>set xs. TrimSpace x = x \<and> x \<noteq> [] \<and> CHR '','' \<notin> set x)"
    then obtain x0 rest where xs: "xs = x0 # rest" by (cases xs) auto
    with h have "x0 \<noteq> []" by simp
    then have ne: "Join xs '','' \<noteq> []" unfolding xs by (rule Join_not_Nil)
    have ts: "trimmedSegments (Join xs '','') = xs"
      using h by (intro trimmedSegments_Join) simp_all
    show "setIPAccessField input (policy_IPAccess (policy_toModel (p\<lparr>api_IPAccess := xs\<rparr>))) =
          assign ''ip_access'' (JArray (map JString xs)) input"
      using h ne by (simp add: policy_toModel_IPAccess setIPAccessField_def ts)
  qed
  have d: "setIPAccessField input (policy_IPAccess (policy_toModel (p\<lparr>api_IPAccess := []\<rparr>))) = input"
    by (simp add: policy_toModel_IPAccess setIPAccessField_def)
  have g1: "setIPAccessField input (StringValue csv) =
        (if filter (\<lambda>s. s \<noteq> []) (map TrimSpace (Split csv CHR '','')) = [] then input
         else assign ''ip_access''
                (JArray (map JString (filter (\<lambda>s. s \<noteq> []) (map TrimSpace (Split csv CHR '','')))))
                input)"
    by (simp add: setIPAccessField_def trimmedSegments_def TrimSpace_Nil)
  have g2: "setIPAccessField input StringNull = input"
    and g3: "setIPAccessField input StringUnknown = input"
    by (simp_all add: setIPAccessField_def)
  have s1: "Join (Split csv CHR '','') '','' = csv"
    using Join_Split [of csv "CHR '',''"] by simp
  have s2: "Split csv CHR '','' \<noteq> []"
    by (rule Split_not_Nil)
  have s3: "\<forall>seg\<in>set (Split csv CHR '',''). CHR '','' \<notin> set seg"
    by (simp add: Split_no_sep_inside)
  have t3: "TrimSpace (CHR 0x09 # ''10.0.0.0/8 '') = ''10.0.0.0/8''"
    by (simp add: TrimSpace_def spaceLen_def unicodeSpaces_def)
  have t4: "TrimSpace '' '' = []"
    by (simp add: TrimSpace_def spaceLen_def unicodeSpaces_def)
  have t5: "TrimSpace ''192.168.1.0/24'' = ''192.168.1.0/24''"
    by (simp add: TrimSpace_def spaceLen_def unicodeSpaces_def)
  have e1: "setIPAccessField [] (StringValue (CHR 0x09 # ''10.0.0.0/8 ,, ,192.168.1.0/24,'')) =
        [(''ip_access'', JArray [JString ''10.0.0.0/8'', JString ''192.168.1.0/24''])]"
    by (simp add: setIPAccessField_def trimmedSegments_def t3 t4 t5 TrimSpace_Nil)
  have w1: "policy_IPAccess (policy_toModel q) =
        (if api_IPAccess q = [] then StringNull else StringValue (Join (api_IPAccess q) '',''))"
    by (rule policy_toModel_IPAccess)
  have w2: "policy_IPAccess (policy_toModel (p\<lparr>api_IPAccess := []\<rparr>)) = StringNull"
    by (simp add: policy_toModel_IPAccess)
  from a b c d g1 g2 g3 s1 s2 s3 e1 w1 w2 show ?thesis by blast
qed

theorem ip_access_round_trip_witness:
  "setIPAccessField [(''name'', JString ''Editors'')]
      (policy_IPAccess (policy_toModel
         (zero_policyAPIResponse\<lparr>api_IPAccess := [''10.0.0.0/8'', ''192.168.1.0/24'']\<rparr>)))
     = [(''name'', JString ''Editors''),
        (''ip_access'', JArray [JString ''10.0.0.0/8'', JString ''192.168.1.0/24''])]"
proof -
  have t1: "TrimSpace ''192.168.1.0/24'' = ''192.168.1.0/24''"
    by (simp add: TrimSpace_def spaceLen_def unicodeSpaces_def)
  have t2: "TrimSpace ''10.0.0.0/8'' = ''10.0.0.0/8''"
    by (simp add: TrimSpace_def spaceLen_def unicodeSpaces_def)
  have h: "[''10.0.0.0/8'', ''192.168.1.0/24''] \<noteq> [] \<and>
           (\<forall>x\<in>set [''10.0.0.0/8'', ''192.168.1.0/24''].
              TrimSpace x = x \<and> x \<noteq> [] \<and> CHR '','' \<notin> set x)"
    by (simp add: t1 t2)
  have r: "setIPAccessField [(''name'', JString ''Editors'')]
      (policy_IPAccess (policy_toModel
         (zero_policyAPIResponse\<lparr>api_IPAccess := [''10.0.0.0/8'', ''192.168.1.0/24'']\<rparr>)))
     = assign ''ip_access'' (JArray (map JString [''10.0.0.0/8'', ''192.168.1.0/24'']))
         [(''name'', JString ''Editors'')]"
    using ip_access_round_trip [where xs = "[''10.0.0.0/8'', ''192.168.1.0/24'']"
            and p = zero_policyAPIResponse and input = "[(''name'', JString ''Editors'')]"] h
    by blast
  show ?thesis
    unfolding r by simp
qed

subsection \<open>A blank string\<close>

text \<open>
  C10. Let the \<open>ip_access\<close> of the plan be a string all of whose comma-separated
  segments trim to the empty string (the empty string is one). \<open>Update\<close> sends nothing
  when the identifier is empty or the URL does not parse, and \<open>Create\<close> sends nothing
  when the URL does not parse; otherwise each sends one request, and the body of that
  request has no \<open>ip_access\<close> key. For no plan at all does either body map \<open>ip_access\<close>
  to the empty array or to null, so the string cannot clear the remote field.
\<close>

theorem ip_access_blank_omitted:
  assumes "policy_IPAccess plan = StringValue csv"
    and "\<forall>p\<in>set (Split csv CHR '',''). TrimSpace p = []"
  shows "fst (PolicyResource_Update L c plan w) =
           (if ValueString (policy_ID plan) = []
               \<or> url_Parse L (BaseURL c @ ''/policies/'' @ ValueString (policy_ID plan)) \<noteq> None
            then w
            else w @ [\<lparr>req_method = MethodPatch,
                        req_url = BaseURL c @ ''/policies/'' @ ValueString (policy_ID plan),
                        req_header = [(''Content-Type'', ''application/json''),
                                      (''Authorization'', ''Bearer '' @ Token c)],
                        req_body = Some (JObject (policyUpdateBody plan))\<rparr>])
       \<and> map_of (policyUpdateBody plan) ''ip_access'' = None
       \<and> fst (PolicyResource_Create L c plan w) =
           (if url_Parse L (BaseURL c @ ''/policies'') \<noteq> None then w
            else w @ [\<lparr>req_method = MethodPost, req_url = BaseURL c @ ''/policies'',
                        req_header = [(''Content-Type'', ''application/json''),
                                      (''Authorization'', ''Bearer '' @ Token c)],
                        req_body = Some (JObject (policyCreateBody plan))\<rparr>])
       \<and> map_of (policyCreateBody plan) ''ip_access'' = None
       \<and> map_of (policyUpdateBody q) ''ip_access'' \<notin> {Some (JArray []), Some JNull}
       \<and> map_of (policyCreateBody q) ''ip_access'' \<notin> {Some (JArray []), Some JNull}"
proof -
  have blank: "trimmedSegments csv = []"
    using assms(2) by (rule trimmedSegments_blank)
  have none: "map_of (setIPAccessField [] (policy_IPAccess plan)) ''ip_access'' = None"
    by (simp add: map_of_setIPAccessField assms(1) blank)
  have never: "map_of (setIPAccessField [] (policy_IPAccess q)) ''ip_access'' \<notin> {Some (JArray []), Some JNull}"
    by (simp add: map_of_setIPAccessField)
  show ?thesis
    using none never
    by (simp only: PolicyResource_Update_log PolicyResource_Create_log
          map_of_policyUpdateBody_ip_access map_of_policyCreateBody_ip_access) simp
qed

theorem ip_access_blank_omitted_witness:
  "fst (PolicyResource_Update (mock_stdlib []) (mock_Client (mockJSONResponse 200 ''{}''))
      \<lparr>policy_ID = StringValue ''p1'', policy_Name = StringValue ''Editors'',
       policy_Icon = StringNull, policy_Description = StringNull,
       policy_IPAccess = StringValue '' , '', policy_EnforceTFA = BoolValue False,
       policy_AdminAccess = BoolValue False, policy_AppAccess = BoolValue True\<rparr> [])
     = [\<lparr>req_method = MethodPatch, req_url = ''http://directus.test/policies/p1'',
         req_header = [(''Content-Type'', ''application/json''),
                       (''Authorization'', ''Bearer test-token'')],
         req_body = Some (JObject [(''name'', JString ''Editors''), (''enforce_tfa'', JBool False),
                       (''admin_access'', JBool False), (''app_access'', JBool True)])\<rparr>]
   \<and> map_of (policyCreateBody
      \<lparr>policy_ID = StringUnknown, policy_Name = StringValue ''Editors'',
       policy_Icon = StringNull, policy_Description = StringNull,
       policy_IPAccess = StringValue [], policy_EnforceTFA = BoolValue False,
       policy_AdminAccess = BoolValue False, policy_AppAccess = BoolValue True\<rparr>) ''ip_access'' = None
   \<and> fst (PolicyResource_Update (mock_stdlib []) (mock_Client (mockJSONResponse 200 ''{}''))
      \<lparr>policy_ID = StringValue [CHR ''p'', CHR 0x0A], policy_Name = StringValue ''Editors'',
       policy_Icon = StringNull, policy_Description = StringNull,
       policy_IPAccess = StringValue '' , '', policy_EnforceTFA = BoolValue False,
       policy_AdminAccess = BoolValue False, policy_AppAccess = BoolValue True\<rparr> []) = []"
proof -
  let ?bad = "\<lparr>policy_ID = StringValue [CHR ''p'', CHR 0x0A], policy_Name = StringValue ''Editors'',
       policy_Icon = StringNull, policy_Description = StringNull,
       policy_IPAccess = StringValue '' , '', policy_EnforceTFA = BoolValue False,
       policy_AdminAccess = BoolValue False, policy_AppAccess = BoolValue True\<rparr>"
  have a1: "policy_IPAccess ?bad = StringValue '' , ''" by simp
  let ?empty = "\<lparr>policy_ID = StringUnknown, policy_Name = StringValue ''Editors'',
       policy_Icon = StringNull, policy_Description = StringNull,
       policy_IPAccess = StringValue [], policy_EnforceTFA = BoolValue False,
       policy_AdminAccess = BoolValue False, policy_AppAccess = BoolValue True\<rparr>"
  have t0: "TrimSpace [] = []"
    by (simp add: TrimSpace_def spaceLen_def unicodeSpaces_def)
  have a0: "policy_IPAccess ?empty = StringValue []" by simp
  have b0: "\<forall>p\<in>set (Split [] CHR '',''). TrimSpace p = []" by (simp add: t0)
  let ?plan = "\<lparr>policy_ID = StringValue ''p1'', policy_Name = StringValue ''Editors'',
       policy_Icon = StringNull, policy_Description = StringNull,
       policy_IPAccess = StringValue '' , '', policy_EnforceTFA = BoolValue False,
       policy_AdminAccess = BoolValue False, policy_AppAccess = BoolValue True\<rparr>"
  have t: "TrimSpace '' '' = []"
    by (simp add: TrimSpace_def spaceLen_def unicodeSpaces_def)
  have a: "policy_IPAccess ?plan = StringValue '' , ''" by simp
  have b: "\<forall>p\<in>set (Split '' , '' CHR '',''). TrimSpace p = []" by (simp add: t)
  have body: "policyUpdateBody ?plan =
      [(''name'', JString ''Editors''), (''enforce_tfa'', JBool False),
       (''admin_access'', JBool False), (''app_access'', JBool True)]"
    by (simp add: policyUpdateBody_def setStringField_def setBoolField_def setIPAccessField_def
          trimmedSegments_def t)
  have sent: "fst (PolicyResource_Update (mock_stdlib []) (mock_Client (mockJSONResponse 200 ''{}''))
                ?plan []) =
      [\<lparr>req_method = MethodPatch, req_url = ''http://directus.test/policies/p1'',
         req_header = [(''Content-Type'', ''application/json''),
                       (''Authorization'', ''Bearer test-token'')],
         req_body = Some (JObject [(''name'', JString ''Editors''), (''enforce_tfa'', JBool False),
                       (''admin_access'', JBool False), (''app_access'', JBool True)])\<rparr>]"
    using ip_access_blank_omitted [OF a b, where L = "mock_stdlib []"
            and c = "mock_Client (mockJSONResponse 200 ''{}'')" and w = "[]"]
    by (simp add: body mock_Client_def url_Parse_mock)
  have unsent: "fst (PolicyResource_Update (mock_stdlib []) (mock_Client (mockJSONResponse 200 ''{}''))
                ?bad []) = []"
    using ip_access_blank_omitted [OF a1 b, where L = "mock_stdlib []"
            and c = "mock_Client (mockJSONResponse 200 ''{}'')" and w = "[]"]
    by (simp add: mock_Client_def url_Parse_mock)
  have empty: "map_of (policyCreateBody ?empty) ''ip_access'' = None"
    using ip_access_blank_omitted [OF a0 b0] by blast
  from sent unsent empty show ?thesis by blast
qed

end
